theory Spec2Isabelle
  imports Complex_Main "HOL-Library.Log_Nat"
begin

section \<open>Data supplied by the issue tracker\<close>

text \<open>
  The analyzers of \<^verbatim>\<open>server.py\<close> read a handful of attributes of every issue
  returned by the tracker client. An issue is modelled by exactly those attributes.
  Attributes that the source tests for absence (\<^verbatim>\<open>assignee\<close>, \<^verbatim>\<open>priority\<close>,
  \<^verbatim>\<open>customfield_10016\<close>) are options. Story points are Python numbers; they are
  modelled as rationals. The analyzers below add and divide them exactly, which is what
  the interpreter does as long as no operation rounds. Where a property depends on the
  rounding of the interpreter's floating point addition (the point sums of the commitment
  analyzer), the accumulation is given a second time with that addition, in the section
  on floating point accumulation.
\<close>

record issue =
  issue_key :: string
  issue_summary :: string
  status_name :: string
  status_category :: string
  assignee :: "string option"
  customfield_10016 :: "rat option"
  priority :: "string option"
  project_key :: string

text \<open>
  A sprint as returned by the client. \<^verbatim>\<open>startDate\<close> is \<open>None\<close> when the attribute is
  missing or empty; the source compares the dates only with each other (as sort keys), so
  a date is modelled by a natural number that carries the order of the timestamps.
\<close>

record sprint =
  sprint_id :: int
  sprint_name :: string
  sprint_state :: string
  startDate :: "nat option"
  endDate :: "nat option"

text \<open>The two JQL queries the analyzers build: \<^verbatim>\<open>sprint = {id}\<close> and the backlog query
  \<^verbatim>\<open>project = {key} AND sprint is EMPTY AND resolution is EMPTY\<close>.\<close>

datatype jql = Sprint_eq int | Backlog_of string

text \<open>An exception raised inside a tool body: one raised by the tracker client, or the
  interpreter's error for a local variable read before it was ever assigned.\<close>

datatype error = Client_error string | Unbound_local string

text \<open>Every tool body is wrapped in \<^verbatim>\<open>try: ... except Exception as e: raise
  HTTPException(status_code=500, ...)\<close>; the value carries the status code and the
  exception that was caught.\<close>

datatype http_error = HTTPException nat error

text \<open>The client calls the analyzers make: \<^verbatim>\<open>jira_client.sprint(id)\<close>,
  \<^verbatim>\<open>jira_client.sprints(board_id, maxResults=50, state='closed,active')\<close> and
  \<^verbatim>\<open>jira_client.search_issues(jql, maxResults=n, fields=...)\<close>. Each either raises
  or returns.\<close>

record jira =
  get_sprint :: "int \<Rightarrow> error + sprint"
  get_sprints :: "int \<Rightarrow> error + sprint list"
  search_issues :: "jql \<Rightarrow> nat \<Rightarrow> error + issue list"

section \<open>Expressions shared by all analyzers\<close>

text \<open>\<^verbatim>\<open>getattr(issue.fields, 'customfield_10016', 0) or 0\<close>\<close>

definition story_points_of :: "issue \<Rightarrow> rat" where
  "story_points_of i = (case customfield_10016 i of None \<Rightarrow> 0 | Some p \<Rightarrow> p)"

text \<open>\<^verbatim>\<open>if story_points:\<close> is the truth value of a number: it is true when nonzero.\<close>

definition truthy :: "rat \<Rightarrow> bool" where
  "truthy p = (p \<noteq> 0)"

text \<open>\<^verbatim>\<open>status_category in ['Done', 'Complete']\<close> and
  \<^verbatim>\<open>status_category in ['In Progress', 'In Development']\<close>\<close>

definition is_done :: "issue \<Rightarrow> bool" where
  "is_done i = (status_category i \<in> set [''Done'', ''Complete''])"

definition is_in_progress :: "issue \<Rightarrow> bool" where
  "is_in_progress i = (status_category i \<in> set [''In Progress'', ''In Development''])"

text \<open>\<^verbatim>\<open>issue.fields.assignee.displayName if issue.fields.assignee else 'Unassigned'\<close>\<close>

definition assignee_name :: "issue \<Rightarrow> string" where
  "assignee_name i = (case assignee i of None \<Rightarrow> ''Unassigned'' | Some n \<Rightarrow> n)"

text \<open>\<^verbatim>\<open>issue.fields.priority.name if issue.fields.priority else 'No Priority'\<close>\<close>

definition priority_name :: "issue \<Rightarrow> string" where
  "priority_name i = (case priority i of None \<Rightarrow> ''No Priority'' | Some p \<Rightarrow> p)"

text \<open>\<^verbatim>\<open>round(x, 1)\<close>: the nearest multiple of one tenth, a tie going to the even
  neighbour. This is the rounding of the exact value; the interpreter rounds the binary
  floating point number that stands for it.\<close>

definition round_half_even :: "rat \<Rightarrow> int" where
  "round_half_even y =
     (let f = \<lfloor>y\<rfloor>; d = y - of_int f
      in if d < 1 / 2 then f else if 1 / 2 < d then f + 1
         else if even f then f else f + 1)"

definition round1 :: "rat \<Rightarrow> rat" where
  "round1 x = of_int (round_half_even (x * 10)) / 10"

section \<open>Commitment analyzer\<close>

text \<open>The running totals of the loop over the sprint's issues (source lines 110 to 155).\<close>

record commitment_totals =
  total_committed_points :: rat
  completed_points :: rat
  in_progress_points :: rat
  todo_points :: rat
  completed_issues :: nat
  in_progress_issues :: nat
  todo_issues :: nat
  issues_with_points :: nat

definition commitment_init :: commitment_totals where
  "commitment_init =
     \<lparr>total_committed_points = 0, completed_points = 0, in_progress_points = 0,
      todo_points = 0, completed_issues = 0, in_progress_issues = 0, todo_issues = 0,
      issues_with_points = 0\<rparr>"

text \<open>One iteration of the loop body: first the status branch, then the point tracking.\<close>

definition commitment_status_step :: "commitment_totals \<Rightarrow> issue \<Rightarrow> commitment_totals" where
  "commitment_status_step t i =
     (let story_points = story_points_of i in
      if is_done i then
        t\<lparr>completed_issues := completed_issues t + 1,
          completed_points :=
            (if truthy story_points then completed_points t + story_points
             else completed_points t)\<rparr>
      else if is_in_progress i then
        t\<lparr>in_progress_issues := in_progress_issues t + 1,
          in_progress_points :=
            (if truthy story_points then in_progress_points t + story_points
             else in_progress_points t)\<rparr>
      else
        t\<lparr>todo_issues := todo_issues t + 1,
          todo_points :=
            (if truthy story_points then todo_points t + story_points
             else todo_points t)\<rparr>)"

definition commitment_step :: "commitment_totals \<Rightarrow> issue \<Rightarrow> commitment_totals" where
  "commitment_step t i =
     (let story_points = story_points_of i; t' = commitment_status_step t i in
      if truthy story_points then
        t'\<lparr>issues_with_points := issues_with_points t' + 1,
           total_committed_points := total_committed_points t' + story_points\<rparr>
      else t')"

definition commitment_loop :: "issue list \<Rightarrow> commitment_totals" where
  "commitment_loop issues = foldl commitment_step commitment_init issues"

datatype commitment_status = ON_TRACK | AT_RISK | OVERCOMMITTED | SEVERELY_OVERCOMMITTED

text \<open>The three-valued scale \<^verbatim>\<open>'LOW'\<close>, \<^verbatim>\<open>'MEDIUM'\<close>, \<^verbatim>\<open>'HIGH'\<close> used for risk
  levels and focus scores.\<close>

datatype level = LOW | MEDIUM | HIGH

datatype metric = Story_points | Issue_count

text \<open>The recommendation texts of the commitment analyzer, one constructor per message;
  the last one carries the numbers and the metric name the source formats into it.\<close>

datatype commitment_rec =
    Severe_move_work | Severe_focus_highest
  | Over_reduce_scope | Over_identify_blockers
  | Risk_monitor_daily | Risk_defer_new_work
  | On_track_maintain
  | High_risk_not_started rat metric rat

text \<open>Lines 158 to 168: the two completion rates, the metric choice, the remaining work.\<close>

definition story_point_completion_rate :: "issue list \<Rightarrow> rat" where
  "story_point_completion_rate issues =
     (let t = commitment_loop issues in
      if 0 < total_committed_points t
      then completed_points t / total_committed_points t * 100 else 0)"

definition issue_completion_rate :: "issue list \<Rightarrow> rat" where
  "issue_completion_rate issues =
     (let total_issues = length issues in
      if 0 < total_issues
      then of_nat (completed_issues (commitment_loop issues)) / of_nat total_issues * 100
      else 0)"

definition uses_story_points :: "issue list \<Rightarrow> bool" where
  "uses_story_points issues = (0 < issues_with_points (commitment_loop issues))"

definition primary_completion_rate :: "issue list \<Rightarrow> rat" where
  "primary_completion_rate issues =
     (if uses_story_points issues then story_point_completion_rate issues
      else issue_completion_rate issues)"

text \<open>Lines 171 to 178 and line 216: the two threshold scales.\<close>

definition commitment_status_of :: "rat \<Rightarrow> commitment_status" where
  "commitment_status_of r =
     (if 80 \<le> r then ON_TRACK
      else if 60 \<le> r then AT_RISK
      else if 40 \<le> r then OVERCOMMITTED
      else SEVERELY_OVERCOMMITTED)"

definition risk_level_of :: "rat \<Rightarrow> level" where
  "risk_level_of r = (if 70 \<le> r then LOW else if 50 \<le> r then MEDIUM else HIGH)"

text \<open>The result of the commitment analyzer: the fields of the JSON document it returns
  (the per-issue listing \<^verbatim>\<open>issue_breakdown\<close>, a copy of the input, is left out).\<close>

record commitment_report =
  c_sprint_id :: int
  c_sprint :: sprint
  c_status :: commitment_status
  c_is_overcommitted :: bool
  c_completion_rate :: rat
  c_remaining_work :: rat
  c_work_in_progress :: rat
  c_work_not_started :: rat
  c_uses_story_points :: bool
  c_points_total_committed :: rat
  c_points_completed :: rat
  c_points_in_progress :: rat
  c_points_todo :: rat
  c_points_completion_rate :: rat
  c_issues_total_committed :: nat
  c_issues_completed :: nat
  c_issues_in_progress :: nat
  c_issues_todo :: nat
  c_issues_completion_rate :: rat
  c_primary_metric :: metric
  c_health_completion_rate :: rat
  c_risk_level :: level
  c_is_on_track :: bool
  c_recommendations :: "commitment_rec list"

definition remaining_work :: "issue list \<Rightarrow> rat" where
  "remaining_work issues =
     (let t = commitment_loop issues in
      if uses_story_points issues then total_committed_points t - completed_points t
      else of_int (int (length issues) - int (completed_issues t)))"

definition work_in_progress :: "issue list \<Rightarrow> rat" where
  "work_in_progress issues =
     (let t = commitment_loop issues in
      if uses_story_points issues then in_progress_points t
      else of_nat (in_progress_issues t))"

definition work_remaining :: "issue list \<Rightarrow> rat" where
  "work_remaining issues = remaining_work issues - work_in_progress issues"

text \<open>Lines 227 to 258: the recommendations, first by status, then by work distribution.\<close>

definition commitment_recommendations :: "issue list \<Rightarrow> commitment_rec list" where
  "commitment_recommendations issues =
     (let commitment_status = commitment_status_of (primary_completion_rate issues) in
      (case commitment_status of
         SEVERELY_OVERCOMMITTED \<Rightarrow> [Severe_move_work, Severe_focus_highest]
       | OVERCOMMITTED \<Rightarrow> [Over_reduce_scope, Over_identify_blockers]
       | AT_RISK \<Rightarrow> [Risk_monitor_daily, Risk_defer_new_work]
       | ON_TRACK \<Rightarrow> [On_track_maintain])
      @ (if work_in_progress issues < work_remaining issues \<and> commitment_status \<noteq> ON_TRACK
         then [High_risk_not_started (work_remaining issues)
                 (if uses_story_points issues then Story_points else Issue_count)
                 (work_in_progress issues)]
         else []))"

definition commitment_analysis :: "int \<Rightarrow> sprint \<Rightarrow> issue list \<Rightarrow> commitment_report" where
  "commitment_analysis sid sp issues =
     (let t = commitment_loop issues;
          commitment_status = commitment_status_of (primary_completion_rate issues)
      in \<lparr>c_sprint_id = sid,
          c_sprint = sp,
          c_status = commitment_status,
          c_is_overcommitted = (commitment_status \<in> set [OVERCOMMITTED, SEVERELY_OVERCOMMITTED]),
          c_completion_rate = round1 (primary_completion_rate issues),
          c_remaining_work = remaining_work issues,
          c_work_in_progress = work_in_progress issues,
          c_work_not_started = work_remaining issues,
          c_uses_story_points = uses_story_points issues,
          c_points_total_committed = total_committed_points t,
          c_points_completed = completed_points t,
          c_points_in_progress = in_progress_points t,
          c_points_todo = todo_points t,
          c_points_completion_rate = round1 (story_point_completion_rate issues),
          c_issues_total_committed = length issues,
          c_issues_completed = completed_issues t,
          c_issues_in_progress = in_progress_issues t,
          c_issues_todo = todo_issues t,
          c_issues_completion_rate = round1 (issue_completion_rate issues),
          c_primary_metric = (if uses_story_points issues then Story_points else Issue_count),
          c_health_completion_rate = round1 (primary_completion_rate issues),
          c_risk_level = risk_level_of (primary_completion_rate issues),
          c_is_on_track = (70 \<le> primary_completion_rate issues),
          c_recommendations = commitment_recommendations issues\<rparr>)"

text \<open>The tool: two client calls, then the analysis; any exception becomes status 500.\<close>

definition analyze_sprint_commitment :: "jira \<Rightarrow> int \<Rightarrow> http_error + commitment_report" where
  "analyze_sprint_commitment client sid =
     (case get_sprint client sid of
        Inl e \<Rightarrow> Inl (HTTPException 500 e)
      | Inr sp \<Rightarrow>
          (case search_issues client (Sprint_eq sid) 200 of
             Inl e \<Rightarrow> Inl (HTTPException 500 e)
           | Inr issues \<Rightarrow> Inr (commitment_analysis sid sp issues)))"

section \<open>Velocity trend analyzer\<close>

text \<open>Lines 435 to 439: keep the sprints that have a start date, sort them by it with the
  most recent first (a stable sort, so equal dates keep their order), take the slice
  \<^verbatim>\<open>[:sprint_count]\<close>. A negative count drops that many sprints from the end, as
  Python slices do.\<close>

definition py_take :: "int \<Rightarrow> 'a list \<Rightarrow> 'a list" where
  "py_take n xs = (if 0 \<le> n then take (nat n) xs else take (nat (int (length xs) + n)) xs)"

definition sorted_sprints :: "sprint list \<Rightarrow> sprint list" where
  "sorted_sprints sprints =
     rev (sort_key (\<lambda>s. the (startDate s)) (rev (filter (\<lambda>s. startDate s \<noteq> None) sprints)))"

definition target_sprints :: "sprint list \<Rightarrow> int \<Rightarrow> sprint list" where
  "target_sprints sprints sprint_count = py_take sprint_count (sorted_sprints sprints)"

text \<open>Lines 450 to 468: the totals of one sprint.\<close>

record velocity_totals =
  v_total_committed_points :: rat
  v_completed_points :: rat
  v_completed_issues :: nat
  v_issues_with_points :: nat

definition velocity_init :: velocity_totals where
  "velocity_init =
     \<lparr>v_total_committed_points = 0, v_completed_points = 0, v_completed_issues = 0,
      v_issues_with_points = 0\<rparr>"

definition velocity_points_step :: "velocity_totals \<Rightarrow> issue \<Rightarrow> velocity_totals" where
  "velocity_points_step t i =
     (let story_points = story_points_of i in
      if truthy story_points then
        t\<lparr>v_issues_with_points := v_issues_with_points t + 1,
          v_total_committed_points := v_total_committed_points t + story_points,
          v_completed_points :=
            (if is_done i then v_completed_points t + story_points
             else v_completed_points t)\<rparr>
      else t)"

definition velocity_step :: "velocity_totals \<Rightarrow> issue \<Rightarrow> velocity_totals" where
  "velocity_step t i =
     (let t' = velocity_points_step t i in
      if is_done i then t'\<lparr>v_completed_issues := v_completed_issues t' + 1\<rparr> else t')"

definition velocity_loop :: "issue list \<Rightarrow> velocity_totals" where
  "velocity_loop issues = foldl velocity_step velocity_init issues"

text \<open>Lines 470 to 487: the entry of one sprint in \<^verbatim>\<open>velocity_data\<close>.\<close>

record sprint_data =
  sd_sprint :: sprint
  sd_uses_story_points :: bool
  sd_points_committed :: rat
  sd_points_completed :: rat
  sd_points_velocity :: rat
  sd_issues_committed :: nat
  sd_issues_completed :: nat
  sd_issues_velocity :: nat

definition sprint_metrics :: "sprint \<Rightarrow> issue list \<Rightarrow> sprint_data" where
  "sprint_metrics sp issues =
     (let t = velocity_loop issues in
      \<lparr>sd_sprint = sp,
       sd_uses_story_points = (0 < v_issues_with_points t),
       sd_points_committed = v_total_committed_points t,
       sd_points_completed = v_completed_points t,
       sd_points_velocity = v_completed_points t,
       sd_issues_committed = length issues,
       sd_issues_completed = v_completed_issues t,
       sd_issues_velocity = v_completed_issues t\<rparr>)"

text \<open>The loop over the target sprints fetches the issues of each one; the first failing
  search aborts the tool.\<close>

fun collect_velocity_data :: "jira \<Rightarrow> sprint list \<Rightarrow> error + sprint_data list" where
  "collect_velocity_data client [] = Inr []"
| "collect_velocity_data client (sp # sps) =
     (case search_issues client (Sprint_eq (sprint_id sp)) 200 of
        Inl e \<Rightarrow> Inl e
      | Inr issues \<Rightarrow>
          (case collect_velocity_data client sps of
             Inl e \<Rightarrow> Inl e
           | Inr rest \<Rightarrow> Inr (sprint_metrics sp issues # rest)))"

datatype trend = UP | DOWN | STABLE | INSUFFICIENT_DATA

text \<open>Lines 492 to 497, inside the branch \<^verbatim>\<open>len(velocity_data) >= 2\<close>.\<close>

definition any_uses_points :: "sprint_data list \<Rightarrow> bool" where
  "any_uses_points velocity_data = list_ex sd_uses_story_points velocity_data"

definition velocities_of :: "sprint_data list \<Rightarrow> rat list" where
  "velocities_of velocity_data =
     (if any_uses_points velocity_data
      then map sd_points_velocity (filter sd_uses_story_points velocity_data)
      else map (\<lambda>s. of_nat (sd_issues_velocity s)) velocity_data)"

text \<open>Lines 501 and 502. \<^verbatim>\<open>velocities[:2]\<close> and \<^verbatim>\<open>velocities[-2:]\<close> are the first and
  the last two entries (the whole list when it is shorter).\<close>

definition recent_avg :: "rat list \<Rightarrow> rat" where
  "recent_avg velocities =
     (if 2 \<le> length velocities then sum_list (take 2 velocities) / 2 else hd velocities)"

definition older_avg :: "rat list \<Rightarrow> rat" where
  "older_avg velocities =
     (if 2 \<le> length velocities
      then sum_list (drop (length velocities - 2) velocities) / 2 else last velocities)"

text \<open>The local variables after the block of lines 491 to 513. \<^verbatim>\<open>uses_points\<close> is
  assigned only in the first branch: \<open>None\<close> stands for the unassigned local.\<close>

record trend_locals =
  trend_direction :: trend
  trend_percentage :: rat
  average_velocity :: rat
  uses_points :: "bool option"

definition trend_calc :: "sprint_data list \<Rightarrow> trend_locals" where
  "trend_calc velocity_data =
     (if 2 \<le> length velocity_data then
        (let velocities = velocities_of velocity_data in
         \<lparr>trend_direction =
            (if 2 \<le> length velocities then
               (if older_avg velocities < recent_avg velocities then UP
                else if recent_avg velocities < older_avg velocities then DOWN
                else STABLE)
             else INSUFFICIENT_DATA),
          trend_percentage =
            (if 2 \<le> length velocities then
               (if 0 < older_avg velocities
                then (recent_avg velocities - older_avg velocities) / older_avg velocities * 100
                else 0)
             else 0),
          average_velocity =
            (if velocities \<noteq> [] then sum_list velocities / of_nat (length velocities) else 0),
          uses_points = Some (any_uses_points velocity_data)\<rparr>)
      else
        \<lparr>trend_direction = INSUFFICIENT_DATA, trend_percentage = 0, average_velocity = 0,
         uses_points = None\<rparr>)"

datatype velocity_rec =
  Declining_investigate | Declining_retrospective | Improving | Stable_capacity | Need_more_sprints

record velocity_report =
  vr_board_id :: int
  vr_analysis_period :: int
  vr_sprints_analyzed :: nat
  vr_direction :: trend
  vr_percentage_change :: rat
  vr_average_velocity :: rat
  vr_uses_story_points :: bool
  vr_metric_type :: metric
  vr_sprint_details :: "sprint_data list"
  vr_recommendations :: "velocity_rec list"

definition velocity_recommendations :: "trend \<Rightarrow> velocity_rec list" where
  "velocity_recommendations d =
     (case d of
        DOWN \<Rightarrow> [Declining_investigate, Declining_retrospective]
      | UP \<Rightarrow> [Improving]
      | STABLE \<Rightarrow> [Stable_capacity]
      | INSUFFICIENT_DATA \<Rightarrow> [Need_more_sprints])"

text \<open>Lines 515 to 539. Building the dictionary reads \<^verbatim>\<open>uses_points\<close>; when the local
  was never assigned the interpreter raises at that point.\<close>

definition velocity_analysis :: "int \<Rightarrow> int \<Rightarrow> sprint_data list \<Rightarrow> error + velocity_report" where
  "velocity_analysis board_id sprint_count velocity_data =
     (let l = trend_calc velocity_data in
      case uses_points l of
        None \<Rightarrow> Inl (Unbound_local ''uses_points'')
      | Some u \<Rightarrow>
          Inr \<lparr>vr_board_id = board_id,
               vr_analysis_period = sprint_count,
               vr_sprints_analyzed = length velocity_data,
               vr_direction = trend_direction l,
               vr_percentage_change = round1 (trend_percentage l),
               vr_average_velocity = round1 (average_velocity l),
               vr_uses_story_points = u,
               vr_metric_type = (if u then Story_points else Issue_count),
               vr_sprint_details = velocity_data,
               vr_recommendations = velocity_recommendations (trend_direction l)\<rparr>)"

definition analyze_velocity_trend :: "jira \<Rightarrow> int \<Rightarrow> int \<Rightarrow> http_error + velocity_report" where
  "analyze_velocity_trend client board_id sprint_count =
     (case get_sprints client board_id of
        Inl e \<Rightarrow> Inl (HTTPException 500 e)
      | Inr sprints \<Rightarrow>
          (case collect_velocity_data client (target_sprints sprints sprint_count) of
             Inl e \<Rightarrow> Inl (HTTPException 500 e)
           | Inr velocity_data \<Rightarrow>
               (case velocity_analysis board_id sprint_count velocity_data of
                  Inl e \<Rightarrow> Inl (HTTPException 500 e)
                | Inr r \<Rightarrow> Inr r)))"

section \<open>Dictionaries with a default\<close>

text \<open>
  The analyzers group issues in a \<^verbatim>\<open>defaultdict\<close>. A Python dictionary keeps its keys
  in insertion order, and the analyzers iterate over it, so it is modelled as an
  association list: \<open>dd_update k d f\<close> applies \<open>f\<close> to the entry of \<open>k\<close> in place, and
  appends the entry \<open>f d\<close> when \<open>k\<close> is new (\<open>d\<close> is what the default factory returns).
  \<^verbatim>\<open>dict.get(k, default)\<close> is \<open>map_of\<close> with a case distinction.
\<close>

fun dd_update :: "'k \<Rightarrow> 'v \<Rightarrow> ('v \<Rightarrow> 'v) \<Rightarrow> ('k \<times> 'v) list \<Rightarrow> ('k \<times> 'v) list" where
  "dd_update k d f [] = [(k, f d)]"
| "dd_update k d f ((k', v) # kvs) =
     (if k = k' then (k', f v) # kvs else (k', v) # dd_update k d f kvs)"

section \<open>Priority focus analyzer\<close>

text \<open>Lines 567 to 596: one bucket per priority name.\<close>

record priority_bucket =
  pb_total :: nat
  pb_in_progress :: nat
  pb_completed :: nat
  pb_todo :: nat
  pb_total_points :: rat
  pb_completed_points :: rat
  pb_issues :: "issue list"

definition priority_bucket_default :: priority_bucket where
  "priority_bucket_default =
     \<lparr>pb_total = 0, pb_in_progress = 0, pb_completed = 0, pb_todo = 0, pb_total_points = 0,
      pb_completed_points = 0, pb_issues = []\<rparr>"

definition priority_bucket_step :: "issue \<Rightarrow> priority_bucket \<Rightarrow> priority_bucket" where
  "priority_bucket_step i b =
     (let story_points = story_points_of i;
          b' = b\<lparr>pb_total := pb_total b + 1,
                 pb_total_points := pb_total_points b + story_points,
                 pb_issues := pb_issues b @ [i]\<rparr>
      in if is_done i then
           b'\<lparr>pb_completed := pb_completed b' + 1,
              pb_completed_points := pb_completed_points b' + story_points\<rparr>
         else if is_in_progress i then b'\<lparr>pb_in_progress := pb_in_progress b' + 1\<rparr>
         else b'\<lparr>pb_todo := pb_todo b' + 1\<rparr>)"

definition sprint_analysis_step ::
  "(string \<times> priority_bucket) list \<Rightarrow> issue \<Rightarrow> (string \<times> priority_bucket) list" where
  "sprint_analysis_step a i =
     dd_update (priority_name i) priority_bucket_default (priority_bucket_step i) a"

definition sprint_analysis :: "issue list \<Rightarrow> (string \<times> priority_bucket) list" where
  "sprint_analysis sprint_issues = foldl sprint_analysis_step [] sprint_issues"

text \<open>Lines 599 to 613: the backlog, bucketed by priority name.\<close>

record backlog_bucket =
  bb_total :: nat
  bb_issues :: "issue list"

definition backlog_analysis_step ::
  "(string \<times> backlog_bucket) list \<Rightarrow> issue \<Rightarrow> (string \<times> backlog_bucket) list" where
  "backlog_analysis_step a i =
     dd_update (priority_name i) \<lparr>bb_total = 0, bb_issues = []\<rparr>
       (\<lambda>b. b\<lparr>bb_total := bb_total b + 1, bb_issues := bb_issues b @ [i]\<rparr>) a"

definition backlog_analysis :: "issue list \<Rightarrow> (string \<times> backlog_bucket) list" where
  "backlog_analysis backlog_issues = foldl backlog_analysis_step [] backlog_issues"

text \<open>\<^verbatim>\<open>d.get(name, {}).get(field, 0)\<close>\<close>

definition get_count :: "(string \<times> 'b) list \<Rightarrow> string \<Rightarrow> ('b \<Rightarrow> nat) \<Rightarrow> nat" where
  "get_count d name field = (case map_of d name of None \<Rightarrow> 0 | Some b \<Rightarrow> field b)"

text \<open>Lines 619 to 629.\<close>

definition critical_in_sprint :: "issue list \<Rightarrow> nat" where
  "critical_in_sprint sprint_issues = get_count (sprint_analysis sprint_issues) ''Critical'' pb_total"

definition critical_in_backlog :: "issue list \<Rightarrow> nat" where
  "critical_in_backlog backlog_issues =
     get_count (backlog_analysis backlog_issues) ''Critical'' bb_total"

definition critical_completed :: "issue list \<Rightarrow> nat" where
  "critical_completed sprint_issues =
     get_count (sprint_analysis sprint_issues) ''Critical'' pb_completed"

definition critical_in_progress :: "issue list \<Rightarrow> nat" where
  "critical_in_progress sprint_issues =
     get_count (sprint_analysis sprint_issues) ''Critical'' pb_in_progress"

definition high_priority_in_sprint :: "issue list \<Rightarrow> nat" where
  "high_priority_in_sprint sprint_issues =
     get_count (sprint_analysis sprint_issues) ''Critical'' pb_total
     + get_count (sprint_analysis sprint_issues) ''Highest'' pb_total
     + get_count (sprint_analysis sprint_issues) ''High'' pb_total"

definition total_sprint_issues :: "issue list \<Rightarrow> nat" where
  "total_sprint_issues sprint_issues =
     sum_list (map (\<lambda>(name, data). pb_total data) (sprint_analysis sprint_issues))"

definition high_priority_percentage :: "issue list \<Rightarrow> rat" where
  "high_priority_percentage sprint_issues =
     (if 0 < total_sprint_issues sprint_issues
      then of_nat (high_priority_in_sprint sprint_issues)
           / of_nat (total_sprint_issues sprint_issues) * 100
      else 0)"

datatype coverage = GOOD | NEEDS_ATTENTION

datatype priority_rec =
  Add_critical_from_backlog nat | Low_focus_reprioritize | Critical_not_worked_on | Good_focus

text \<open>Lines 665 to 675: four independent rules, appended in this order.\<close>

definition priority_recommendations :: "issue list \<Rightarrow> issue list \<Rightarrow> priority_rec list" where
  "priority_recommendations sprint_issues backlog_issues =
     (if 0 < critical_in_backlog backlog_issues
      then [Add_critical_from_backlog (critical_in_backlog backlog_issues)] else [])
     @ (if high_priority_percentage sprint_issues < 50 then [Low_focus_reprioritize] else [])
     @ (if 0 < critical_in_sprint sprint_issues \<and> critical_completed sprint_issues = 0
           \<and> critical_in_progress sprint_issues = 0
        then [Critical_not_worked_on] else [])
     @ (if 70 \<le> high_priority_percentage sprint_issues then [Good_focus] else [])"

record priority_report =
  pf_sprint_id :: int
  pf_sprint :: sprint
  pf_critical_in_sprint_total :: nat
  pf_critical_in_sprint_completed :: nat
  pf_critical_in_sprint_in_progress :: nat
  pf_critical_in_backlog_total :: nat
  pf_critical_completion_rate :: rat
  pf_high_priority_issues_in_sprint :: nat
  pf_total_sprint_issues :: nat
  pf_high_priority_percentage :: rat
  pf_sprint_breakdown_by_priority :: "(string \<times> priority_bucket) list"
  pf_backlog_high_priority_items :: "(string \<times> backlog_bucket) list"
  pf_focus_score :: level
  pf_critical_coverage :: coverage
  pf_missed_critical_items :: nat
  pf_recommendations :: "priority_rec list"

definition priority_focus_analysis ::
  "int \<Rightarrow> sprint \<Rightarrow> issue list \<Rightarrow> issue list \<Rightarrow> priority_report" where
  "priority_focus_analysis sid sp sprint_issues backlog_issues =
     \<lparr>pf_sprint_id = sid,
      pf_sprint = sp,
      pf_critical_in_sprint_total = critical_in_sprint sprint_issues,
      pf_critical_in_sprint_completed = critical_completed sprint_issues,
      pf_critical_in_sprint_in_progress = critical_in_progress sprint_issues,
      pf_critical_in_backlog_total = critical_in_backlog backlog_issues,
      pf_critical_completion_rate =
        round1 (if 0 < critical_in_sprint sprint_issues
                then of_nat (critical_completed sprint_issues)
                     / of_nat (critical_in_sprint sprint_issues) * 100
                else 0),
      pf_high_priority_issues_in_sprint = high_priority_in_sprint sprint_issues,
      pf_total_sprint_issues = total_sprint_issues sprint_issues,
      pf_high_priority_percentage = round1 (high_priority_percentage sprint_issues),
      pf_sprint_breakdown_by_priority = sprint_analysis sprint_issues,
      pf_backlog_high_priority_items =
        filter (\<lambda>(name, data). name \<in> set [''Critical'', ''Highest'', ''High''] \<and> 0 < bb_total data)
          (backlog_analysis backlog_issues),
      pf_focus_score =
        (if 60 \<le> high_priority_percentage sprint_issues then HIGH
         else if 40 \<le> high_priority_percentage sprint_issues then MEDIUM else LOW),
      pf_critical_coverage =
        (if critical_in_backlog backlog_issues \<le> critical_in_sprint sprint_issues
         then GOOD else NEEDS_ATTENTION),
      pf_missed_critical_items = critical_in_backlog backlog_issues,
      pf_recommendations = priority_recommendations sprint_issues backlog_issues\<rparr>"

text \<open>Lines 551 to 564: the sprint, its issues, and the backlog of the project of the first
  sprint issue; the backlog search is made only when the sprint has issues.\<close>

definition analyze_priority_focus :: "jira \<Rightarrow> int \<Rightarrow> int \<Rightarrow> http_error + priority_report" where
  "analyze_priority_focus client board_id sid =
     (case get_sprint client sid of
        Inl e \<Rightarrow> Inl (HTTPException 500 e)
      | Inr sp \<Rightarrow>
          (case search_issues client (Sprint_eq sid) 200 of
             Inl e \<Rightarrow> Inl (HTTPException 500 e)
           | Inr sprint_issues \<Rightarrow>
               (case (if sprint_issues \<noteq> []
                      then search_issues client (Backlog_of (project_key (hd sprint_issues))) 100
                      else Inr []) of
                  Inl e \<Rightarrow> Inl (HTTPException 500 e)
                | Inr backlog_issues \<Rightarrow>
                    Inr (priority_focus_analysis sid sp sprint_issues backlog_issues))))"

section \<open>Workload analyzer\<close>

text \<open>The load level strings \<^verbatim>\<open>'OVERLOADED'\<close>, \<^verbatim>\<open>'HIGH'\<close>, \<^verbatim>\<open>'NORMAL'\<close>,
  \<^verbatim>\<open>'LIGHT'\<close>.\<close>

datatype load_level = OVERLOADED | HIGH_LOAD | NORMAL | LIGHT

datatype risk_factor = WIP_violation nat | Excessive_issue_count | Context_switching

text \<open>Lines 695 to 705: the entry of one assignee. \<^verbatim>\<open>risk_factors\<close> is added to the
  entry by the second loop; before that it is the empty list here.\<close>

record assignee_load =
  al_total_issues :: nat
  al_story_points :: rat
  al_in_progress_count :: nat
  al_completed_count :: nat
  al_todo_count :: nat
  al_priority_breakdown :: "(string \<times> nat) list"
  al_issues :: "issue list"
  al_wip_violations :: "issue list"
  al_load_level :: load_level
  al_risk_factors :: "risk_factor list"

definition assignee_load_default :: assignee_load where
  "assignee_load_default =
     \<lparr>al_total_issues = 0, al_story_points = 0, al_in_progress_count = 0, al_completed_count = 0,
      al_todo_count = 0, al_priority_breakdown = [], al_issues = [], al_wip_violations = [],
      al_load_level = NORMAL, al_risk_factors = []\<rparr>"

text \<open>Lines 713 to 736: what one issue does to the entry of its assignee.\<close>

definition assignee_load_step :: "issue \<Rightarrow> assignee_load \<Rightarrow> assignee_load" where
  "assignee_load_step i d =
     (let d' = d\<lparr>al_total_issues := al_total_issues d + 1,
                 al_story_points := al_story_points d + story_points_of i,
                 al_priority_breakdown :=
                   dd_update (priority_name i) 0 (\<lambda>n. n + 1) (al_priority_breakdown d),
                 al_issues := al_issues d @ [i]\<rparr>
      in if is_done i then d'\<lparr>al_completed_count := al_completed_count d' + 1\<rparr>
         else if is_in_progress i then
           (let d'' = d'\<lparr>al_in_progress_count := al_in_progress_count d' + 1\<rparr>
            in if 1 < al_in_progress_count d''
               then d''\<lparr>al_wip_violations := al_wip_violations d'' @ [i]\<rparr> else d'')
         else d'\<lparr>al_todo_count := al_todo_count d' + 1\<rparr>)"

definition workload_step ::
  "(string \<times> assignee_load) list \<Rightarrow> issue \<Rightarrow> (string \<times> assignee_load) list" where
  "workload_step w i = dd_update (assignee_name i) assignee_load_default (assignee_load_step i) w"

text \<open>Lines 744 to 751.\<close>

definition load_level_of :: "nat \<Rightarrow> load_level" where
  "load_level_of n =
     (if 13 \<le> n then OVERLOADED else if 9 \<le> n then HIGH_LOAD
      else if 5 \<le> n then NORMAL else LIGHT)"

text \<open>Lines 739 to 766: the second loop sets the load level and the risk factors of every
  entry. \<^verbatim>\<open>total_issues * 0.7\<close> is taken as the exact seven tenths.\<close>

definition assess_load :: "assignee_load \<Rightarrow> assignee_load" where
  "assess_load d =
     (let critical_count = get_count (al_priority_breakdown d) ''Critical'' id;
          high_count = get_count (al_priority_breakdown d) ''High'' id
                       + get_count (al_priority_breakdown d) ''Highest'' id
      in d\<lparr>al_load_level := load_level_of (al_total_issues d),
           al_risk_factors :=
             (if 2 < al_in_progress_count d then [WIP_violation (al_in_progress_count d)] else [])
             @ (if 13 \<le> al_total_issues d then [Excessive_issue_count] else [])
             @ (if (of_nat (al_total_issues d) :: rat) * (7 / 10) < of_nat (critical_count + high_count)
                then [Context_switching] else [])\<rparr>)"

definition workload_analysis :: "issue list \<Rightarrow> (string \<times> assignee_load) list" where
  "workload_analysis sprint_issues =
     map (\<lambda>(name, data). (name, assess_load data)) (foldl workload_step [] sprint_issues)"

text \<open>Lines 769 to 783: the team level, which leaves the \<^verbatim>\<open>'Unassigned'\<close> entry out.\<close>

definition overloaded_members :: "(string \<times> assignee_load) list \<Rightarrow> string list" where
  "overloaded_members w =
     map fst (filter (\<lambda>(name, data). al_load_level data = OVERLOADED \<and> name \<noteq> ''Unassigned'') w)"

definition high_load_members :: "(string \<times> assignee_load) list \<Rightarrow> string list" where
  "high_load_members w =
     map fst (filter (\<lambda>(name, data). al_load_level data = HIGH_LOAD \<and> name \<noteq> ''Unassigned'') w)"

definition wip_violators :: "(string \<times> assignee_load) list \<Rightarrow> string list" where
  "wip_violators w =
     map fst (filter (\<lambda>(name, data). 0 < length (al_wip_violations data) \<and> name \<noteq> ''Unassigned'') w)"

definition assigned_members :: "(string \<times> assignee_load) list \<Rightarrow> assignee_load list" where
  "assigned_members w = map snd (filter (\<lambda>(name, data). name \<noteq> ''Unassigned'') w)"

fun list_max :: "nat list \<Rightarrow> nat" where
  "list_max [] = 0"
| "list_max (x # xs) = fold max xs x"

fun list_min :: "nat list \<Rightarrow> nat" where
  "list_min [] = 0"
| "list_min (x # xs) = fold min xs x"

definition avg_issues :: "(string \<times> assignee_load) list \<Rightarrow> rat" where
  "avg_issues w =
     (if assigned_members w \<noteq> []
      then of_nat (sum_list (map al_total_issues (assigned_members w)))
           / of_nat (length (assigned_members w))
      else 0)"

definition max_issues :: "(string \<times> assignee_load) list \<Rightarrow> nat" where
  "max_issues w = list_max (map al_total_issues (assigned_members w))"

definition min_issues :: "(string \<times> assignee_load) list \<Rightarrow> nat" where
  "min_issues w = list_min (map al_total_issues (assigned_members w))"

datatype balance = BALANCED | UNBALANCED

datatype workload_rec =
  Redistribute_from "string list" | Address_wip "string list" | Assign_unassigned
  | Rebalance_distribution | Workload_healthy

text \<open>Lines 815 to 828.\<close>

definition workload_recommendations :: "(string \<times> assignee_load) list \<Rightarrow> workload_rec list" where
  "workload_recommendations w =
     (if overloaded_members w \<noteq> [] then [Redistribute_from (overloaded_members w)] else [])
     @ (if wip_violators w \<noteq> [] then [Address_wip (wip_violators w)] else [])
     @ (if 0 < get_count w ''Unassigned'' al_total_issues then [Assign_unassigned] else [])
     @ (if 8 < int (max_issues w) - int (min_issues w) then [Rebalance_distribution] else [])
     @ (if overloaded_members w = [] \<and> wip_violators w = [] then [Workload_healthy] else [])"

record workload_report =
  wl_sprint_id :: int
  wl_sprint :: sprint
  wl_total_team_members :: nat
  wl_overloaded_members :: nat
  wl_high_load_members :: nat
  wl_wip_violators :: nat
  wl_unassigned_issues :: nat
  wl_average_issues_per_person :: rat
  wl_max_issues_per_person :: nat
  wl_min_issues_per_person :: nat
  wl_distribution_balance :: balance
  wl_individual_workloads :: "(string \<times> assignee_load) list"
  wl_risk_overloaded_members :: "string list"
  wl_risk_high_load_members :: "string list"
  wl_risk_wip_violators :: "string list"
  wl_sprint_failure_risk :: level
  wl_recommendations :: "workload_rec list"

definition team_workload_analysis :: "int \<Rightarrow> sprint \<Rightarrow> issue list \<Rightarrow> workload_report" where
  "team_workload_analysis sid sp sprint_issues =
     (let w = workload_analysis sprint_issues in
      \<lparr>wl_sprint_id = sid,
       wl_sprint = sp,
       wl_total_team_members = length (filter (\<lambda>name. name \<noteq> ''Unassigned'') (map fst w)),
       wl_overloaded_members = length (overloaded_members w),
       wl_high_load_members = length (high_load_members w),
       wl_wip_violators = length (wip_violators w),
       wl_unassigned_issues = get_count w ''Unassigned'' al_total_issues,
       wl_average_issues_per_person = round1 (avg_issues w),
       wl_max_issues_per_person = max_issues w,
       wl_min_issues_per_person = min_issues w,
       wl_distribution_balance =
         (if 8 < int (max_issues w) - int (min_issues w) then UNBALANCED else BALANCED),
       wl_individual_workloads = w,
       wl_risk_overloaded_members = overloaded_members w,
       wl_risk_high_load_members = high_load_members w,
       wl_risk_wip_violators = wip_violators w,
       wl_sprint_failure_risk =
         (if overloaded_members w \<noteq> [] then HIGH
          else if high_load_members w \<noteq> [] \<or> wip_violators w \<noteq> [] then MEDIUM else LOW),
       wl_recommendations = workload_recommendations w\<rparr>)"

definition analyze_team_workload :: "jira \<Rightarrow> int \<Rightarrow> int \<Rightarrow> http_error + workload_report" where
  "analyze_team_workload client board_id sid =
     (case get_sprint client sid of
        Inl e \<Rightarrow> Inl (HTTPException 500 e)
      | Inr sp \<Rightarrow>
          (case search_issues client (Sprint_eq sid) 200 of
             Inl e \<Rightarrow> Inl (HTTPException 500 e)
           | Inr sprint_issues \<Rightarrow> Inr (team_workload_analysis sid sp sprint_issues)))"

section \<open>Dashboard composer\<close>

text \<open>Lines 858 to 873: the state of the single loop of the dashboard.\<close>

record dash_priority =
  dp_total :: nat
  dp_completed :: nat
  dp_in_progress :: nat

record dash_workload =
  dw_total_issues :: nat
  dw_in_progress_count :: nat
  dw_completed_count :: nat
  dw_story_points :: rat
  dw_high_priority_count :: nat

record dash_state =
  d_total_committed_points :: rat
  d_completed_points :: rat
  d_in_progress_points :: rat
  d_completed_issues :: nat
  d_in_progress_issues :: nat
  d_issues_with_points :: nat
  d_priority_breakdown :: "(string \<times> dash_priority) list"
  d_workload_by_assignee :: "(string \<times> dash_workload) list"

definition dash_init :: dash_state where
  "dash_init =
     \<lparr>d_total_committed_points = 0, d_completed_points = 0, d_in_progress_points = 0,
      d_completed_issues = 0, d_in_progress_issues = 0, d_issues_with_points = 0,
      d_priority_breakdown = [], d_workload_by_assignee = []\<rparr>"

text \<open>Lines 883 to 894: the commitment metrics.\<close>

definition dash_commitment_step :: "dash_state \<Rightarrow> issue \<Rightarrow> dash_state" where
  "dash_commitment_step s i =
     (let story_points = story_points_of i;
          s' = (if truthy story_points then
                  s\<lparr>d_issues_with_points := d_issues_with_points s + 1,
                    d_total_committed_points := d_total_committed_points s + story_points,
                    d_completed_points :=
                      (if is_done i then d_completed_points s + story_points
                       else d_completed_points s),
                    d_in_progress_points :=
                      (if \<not> is_done i \<and> is_in_progress i
                       then d_in_progress_points s + story_points
                       else d_in_progress_points s)\<rparr>
                else s)
      in if is_done i then s'\<lparr>d_completed_issues := d_completed_issues s' + 1\<rparr>
         else if is_in_progress i then s'\<lparr>d_in_progress_issues := d_in_progress_issues s' + 1\<rparr>
         else s')"

text \<open>Lines 897 to 901: the priority metrics.\<close>

definition dash_priority_step :: "issue \<Rightarrow> dash_priority \<Rightarrow> dash_priority" where
  "dash_priority_step i b =
     (let b' = b\<lparr>dp_total := dp_total b + 1\<rparr>
      in if is_done i then b'\<lparr>dp_completed := dp_completed b' + 1\<rparr>
         else if is_in_progress i then b'\<lparr>dp_in_progress := dp_in_progress b' + 1\<rparr>
         else b')"

text \<open>Lines 904 to 913: the workload metrics.\<close>

definition dash_workload_step :: "issue \<Rightarrow> dash_workload \<Rightarrow> dash_workload" where
  "dash_workload_step i d =
     (let d' = d\<lparr>dw_total_issues := dw_total_issues d + 1,
                 dw_story_points := dw_story_points d + story_points_of i\<rparr>;
          d'' = (if is_done i then d'\<lparr>dw_completed_count := dw_completed_count d' + 1\<rparr>
                 else if is_in_progress i
                 then d'\<lparr>dw_in_progress_count := dw_in_progress_count d' + 1\<rparr>
                 else d')
      in if priority_name i \<in> set [''Critical'', ''Highest'', ''High'']
         then d''\<lparr>dw_high_priority_count := dw_high_priority_count d'' + 1\<rparr> else d'')"

definition dash_step :: "dash_state \<Rightarrow> issue \<Rightarrow> dash_state" where
  "dash_step s i =
     (let s' = dash_commitment_step s i in
      s'\<lparr>d_priority_breakdown :=
            dd_update (priority_name i) \<lparr>dp_total = 0, dp_completed = 0, dp_in_progress = 0\<rparr>
              (dash_priority_step i) (d_priority_breakdown s'),
         d_workload_by_assignee :=
            dd_update (assignee_name i)
              \<lparr>dw_total_issues = 0, dw_in_progress_count = 0, dw_completed_count = 0,
               dw_story_points = 0, dw_high_priority_count = 0\<rparr>
              (dash_workload_step i) (d_workload_by_assignee s')\<rparr>)"

definition dash_loop :: "issue list \<Rightarrow> dash_state" where
  "dash_loop issues = foldl dash_step dash_init issues"

text \<open>Lines 916 to 950: the key metrics.\<close>

definition dash_uses_story_points :: "issue list \<Rightarrow> bool" where
  "dash_uses_story_points issues = (0 < d_issues_with_points (dash_loop issues))"

definition dash_completion_rate :: "issue list \<Rightarrow> rat" where
  "dash_completion_rate issues =
     (let s = dash_loop issues; total_issues = length issues in
      if dash_uses_story_points issues then
        (if 0 < d_total_committed_points s
         then d_completed_points s / d_total_committed_points s * 100 else 0)
      else
        (if 0 < total_issues
         then of_nat (d_completed_issues s) / of_nat total_issues * 100 else 0))"

definition dash_commitment_status :: "issue list \<Rightarrow> commitment_status" where
  "dash_commitment_status issues = commitment_status_of (dash_completion_rate issues)"

definition dash_critical_total :: "issue list \<Rightarrow> nat" where
  "dash_critical_total issues =
     get_count (d_priority_breakdown (dash_loop issues)) ''Critical'' dp_total"

definition dash_critical_in_progress :: "issue list \<Rightarrow> nat" where
  "dash_critical_in_progress issues =
     get_count (d_priority_breakdown (dash_loop issues)) ''Critical'' dp_in_progress"

definition dash_high_priority_total :: "issue list \<Rightarrow> nat" where
  "dash_high_priority_total issues =
     get_count (d_priority_breakdown (dash_loop issues)) ''Critical'' dp_total
     + get_count (d_priority_breakdown (dash_loop issues)) ''Highest'' dp_total
     + get_count (d_priority_breakdown (dash_loop issues)) ''High'' dp_total"

definition dash_high_priority_percentage :: "issue list \<Rightarrow> rat" where
  "dash_high_priority_percentage issues =
     (if 0 < length issues
      then of_nat (dash_high_priority_total issues) / of_nat (length issues) * 100 else 0)"

definition dash_assigned_members :: "issue list \<Rightarrow> string list" where
  "dash_assigned_members issues =
     filter (\<lambda>name. name \<noteq> ''Unassigned'') (map fst (d_workload_by_assignee (dash_loop issues)))"

definition dash_overloaded_members :: "issue list \<Rightarrow> string list" where
  "dash_overloaded_members issues =
     map fst (filter (\<lambda>(assignee, data). assignee \<noteq> ''Unassigned'' \<and> 13 \<le> dw_total_issues data)
                (d_workload_by_assignee (dash_loop issues)))"

definition dash_wip_violators :: "issue list \<Rightarrow> string list" where
  "dash_wip_violators issues =
     map fst (filter (\<lambda>(assignee, data). assignee \<noteq> ''Unassigned'' \<and> 2 < dw_in_progress_count data)
                (d_workload_by_assignee (dash_loop issues)))"

datatype health_risk =
  Sprint_overcommitted | Critical_items_not_worked_on | Members_overloaded nat
  | WIP_limit_violations nat | Low_high_priority_focus | No_major_risks

text \<open>Lines 953 to 977.\<close>

definition dash_health_risks :: "issue list \<Rightarrow> health_risk list" where
  "dash_health_risks issues =
     (let risks =
        (if dash_commitment_status issues \<in> set [OVERCOMMITTED, SEVERELY_OVERCOMMITTED]
         then [Sprint_overcommitted] else [])
        @ (if 0 < dash_critical_total issues \<and> dash_critical_in_progress issues = 0
           then [Critical_items_not_worked_on] else [])
        @ (if dash_overloaded_members issues \<noteq> []
           then [Members_overloaded (length (dash_overloaded_members issues))] else [])
        @ (if dash_wip_violators issues \<noteq> []
           then [WIP_limit_violations (length (dash_wip_violators issues))] else [])
        @ (if dash_high_priority_percentage issues < 50 then [Low_high_priority_focus] else [])
      in if risks = [] then [No_major_risks] else risks)"

definition dash_overall_risk :: "issue list \<Rightarrow> level" where
  "dash_overall_risk issues =
     (let r0 = LOW;
          r1 = (if dash_commitment_status issues \<in> set [OVERCOMMITTED, SEVERELY_OVERCOMMITTED]
                then HIGH else r0);
          r2 = (if 0 < dash_critical_total issues \<and> dash_critical_in_progress issues = 0
                then (if r1 \<noteq> HIGH then HIGH else r1) else r1);
          r3 = (if dash_overloaded_members issues \<noteq> []
                then (if r2 \<noteq> HIGH then HIGH else r2) else r2);
          r4 = (if dash_wip_violators issues \<noteq> []
                then (if r3 = LOW then MEDIUM else r3) else r3)
      in if dash_high_priority_percentage issues < 50
         then (if r4 = LOW then MEDIUM else r4) else r4)"

datatype dashboard_rec =
  Reduce_scope_immediately | Consider_reducing_scope
  | Redistribute_overloaded "string list" | Address_wip_violations "string list"
  | Start_critical_items nat | Increase_priority_focus | Health_looks_good

text \<open>Lines 980 to 1000: the recommendations of the dashboard.\<close>

definition dash_recommendations :: "issue list \<Rightarrow> dashboard_rec list" where
  "dash_recommendations issues =
     (let recommendations =
        (if dash_commitment_status issues = SEVERELY_OVERCOMMITTED then [Reduce_scope_immediately]
         else if dash_commitment_status issues = OVERCOMMITTED then [Consider_reducing_scope]
         else [])
        @ (if dash_overloaded_members issues \<noteq> []
           then [Redistribute_overloaded (dash_overloaded_members issues)] else [])
        @ (if dash_wip_violators issues \<noteq> []
           then [Address_wip_violations (dash_wip_violators issues)] else [])
        @ (if 0 < dash_critical_total issues \<and> dash_critical_in_progress issues = 0
           then [Start_critical_items (dash_critical_total issues)] else [])
        @ (if dash_high_priority_percentage issues < 50 then [Increase_priority_focus] else [])
      in if recommendations = [] then [Health_looks_good] else recommendations)"

record dashboard_report =
  db_sprint_id :: int
  db_sprint :: sprint
  db_board_id :: int
  db_risk_level :: level
  db_commitment_status :: commitment_status
  db_completion_rate :: rat
  db_health_risks :: "health_risk list"
  db_is_overcommitted :: bool
  db_uses_story_points :: bool
  db_total_work :: rat
  db_completed_work :: rat
  db_in_progress_work :: rat
  db_critical_issues_total :: nat
  db_critical_issues_in_progress :: nat
  db_high_priority_percentage :: rat
  db_priority_focus_score :: level
  db_total_team_members :: nat
  db_overloaded_members :: nat
  db_wip_violators :: nat
  db_unassigned_issues :: nat
  db_team_capacity_risk :: level
  db_key_recommendations :: "dashboard_rec list"
  db_priority_breakdown :: "(string \<times> dash_priority) list"
  db_workload_breakdown :: "(string \<times> dash_workload) list"

text \<open>The dashboard returns either the document of lines 848 to 855 (no issue in the
  sprint) or the full report.\<close>

datatype dashboard_result = No_issues_found int sprint | Dashboard dashboard_report

definition dashboard :: "int \<Rightarrow> int \<Rightarrow> sprint \<Rightarrow> issue list \<Rightarrow> dashboard_report" where
  "dashboard board_id sid sp issues =
     (let s = dash_loop issues; u = dash_uses_story_points issues in
      \<lparr>db_sprint_id = sid,
       db_sprint = sp,
       db_board_id = board_id,
       db_risk_level = dash_overall_risk issues,
       db_commitment_status = dash_commitment_status issues,
       db_completion_rate = round1 (dash_completion_rate issues),
       db_health_risks = dash_health_risks issues,
       db_is_overcommitted =
         (dash_commitment_status issues \<in> set [OVERCOMMITTED, SEVERELY_OVERCOMMITTED]),
       db_uses_story_points = u,
       db_total_work = (if u then d_total_committed_points s else of_nat (length issues)),
       db_completed_work = (if u then d_completed_points s else of_nat (d_completed_issues s)),
       db_in_progress_work =
         (if u then d_in_progress_points s else of_nat (d_in_progress_issues s)),
       db_critical_issues_total = dash_critical_total issues,
       db_critical_issues_in_progress = dash_critical_in_progress issues,
       db_high_priority_percentage = round1 (dash_high_priority_percentage issues),
       db_priority_focus_score =
         (if 60 \<le> dash_high_priority_percentage issues then HIGH
          else if 40 \<le> dash_high_priority_percentage issues then MEDIUM else LOW),
       db_total_team_members = length (dash_assigned_members issues),
       db_overloaded_members = length (dash_overloaded_members issues),
       db_wip_violators = length (dash_wip_violators issues),
       db_unassigned_issues = get_count (d_workload_by_assignee s) ''Unassigned'' dw_total_issues,
       db_team_capacity_risk =
         (if dash_overloaded_members issues \<noteq> [] then HIGH
          else if dash_wip_violators issues \<noteq> [] then MEDIUM else LOW),
       db_key_recommendations = dash_recommendations issues,
       db_priority_breakdown = d_priority_breakdown s,
       db_workload_breakdown = d_workload_by_assignee s\<rparr>)"

definition sprint_health_dashboard :: "jira \<Rightarrow> int \<Rightarrow> int \<Rightarrow> http_error + dashboard_result" where
  "sprint_health_dashboard client board_id sid =
     (case get_sprint client sid of
        Inl e \<Rightarrow> Inl (HTTPException 500 e)
      | Inr sp \<Rightarrow>
          (case search_issues client (Sprint_eq sid) 200 of
             Inl e \<Rightarrow> Inl (HTTPException 500 e)
           | Inr issues \<Rightarrow>
               (if issues = [] then Inr (No_issues_found sid sp)
                else Inr (Dashboard (dashboard board_id sid sp issues)))))"

section \<open>Floating point accumulation of story points\<close>





text \<open>The loop body of the commitment analyzer (lines 124 to 155) with the addition of
  story points as a parameter: with \<open>(+)\<close> it is \<open>commitment_step\<close>, with \<open>float_add\<close>
  it is what the interpreter computes on floats. The counters of issues are integers
  and do not depend on it.\<close>

definition commitment_status_step_with ::
  "(rat \<Rightarrow> rat \<Rightarrow> rat) \<Rightarrow> commitment_totals \<Rightarrow> issue \<Rightarrow> commitment_totals" where
  "commitment_status_step_with add t i =
     (let story_points = story_points_of i in
      if is_done i then
        t\<lparr>completed_issues := completed_issues t + 1,
          completed_points :=
            (if truthy story_points then add (completed_points t) story_points
             else completed_points t)\<rparr>
      else if is_in_progress i then
        t\<lparr>in_progress_issues := in_progress_issues t + 1,
          in_progress_points :=
            (if truthy story_points then add (in_progress_points t) story_points
             else in_progress_points t)\<rparr>
      else
        t\<lparr>todo_issues := todo_issues t + 1,
          todo_points :=
            (if truthy story_points then add (todo_points t) story_points
             else todo_points t)\<rparr>)"

definition commitment_step_with ::
  "(rat \<Rightarrow> rat \<Rightarrow> rat) \<Rightarrow> commitment_totals \<Rightarrow> issue \<Rightarrow> commitment_totals" where
  "commitment_step_with add t i =
     (let story_points = story_points_of i; t' = commitment_status_step_with add t i in
      if truthy story_points then
        t'\<lparr>issues_with_points := issues_with_points t' + 1,
           total_committed_points := add (total_committed_points t') story_points\<rparr>
      else t')"


section \<open>Example inputs\<close>

text \<open>A small in-memory tracker: a list of sprints, the issues of every sprint, and one
  backlog. It answers the three client calls and truncates at \<^verbatim>\<open>maxResults\<close>.\<close>

definition mk_issue ::
  "string \<Rightarrow> string \<Rightarrow> string option \<Rightarrow> rat option \<Rightarrow> string option \<Rightarrow> issue" where
  "mk_issue k cat who pts prio =
     \<lparr>issue_key = k, issue_summary = [], status_name = cat, status_category = cat,
      assignee = who, customfield_10016 = pts, priority = prio, project_key = ''PRJ''\<rparr>"

definition mk_sprint :: "int \<Rightarrow> nat \<Rightarrow> sprint" where
  "mk_sprint n d =
     \<lparr>sprint_id = n, sprint_name = ''Sprint'', sprint_state = ''closed'', startDate = Some d,
      endDate = None\<rparr>"

definition tracker :: "sprint list \<Rightarrow> (int \<Rightarrow> issue list) \<Rightarrow> issue list \<Rightarrow> jira" where
  "tracker sprints issues_of backlog =
     \<lparr>get_sprint = (\<lambda>n. case find (\<lambda>s. sprint_id s = n) sprints of
                          None \<Rightarrow> Inl (Client_error ''sprint not found'') | Some s \<Rightarrow> Inr s),
      get_sprints = (\<lambda>b. Inr sprints),
      search_issues = (\<lambda>q n. case q of Sprint_eq k \<Rightarrow> Inr (take n (issues_of k))
                                      | Backlog_of p \<Rightarrow> Inr (take n backlog))\<rparr>"

text \<open>A board with a single dated sprint that holds two issues.\<close>

definition one_sprint_board :: jira where
  "one_sprint_board =
     tracker [mk_sprint 1 10]
       (\<lambda>n. [mk_issue ''A-1'' ''Done'' None (Some 5) None,
             mk_issue ''A-2'' ''To Do'' None None None]) []"

text \<open>A sprint without issues, in a project whose backlog holds two critical issues.\<close>

definition critical_backlog :: "issue list" where
  "critical_backlog =
     [mk_issue ''B-1'' ''To Do'' None None (Some ''Critical''),
      mk_issue ''B-2'' ''To Do'' None None (Some ''Critical'')]"

definition empty_sprint_tracker :: jira where
  "empty_sprint_tracker = tracker [mk_sprint 1 10] (\<lambda>n. []) critical_backlog"

text \<open>A sprint of four issues: two done, one in progress, one to do; three carry points.\<close>

definition sample_issues :: "issue list" where
  "sample_issues =
     [mk_issue ''S-1'' ''Done'' (Some ''alice'') (Some 5) (Some ''Critical''),
      mk_issue ''S-2'' ''In Progress'' (Some ''alice'') (Some 3) (Some ''High''),
      mk_issue ''S-3'' ''To Do'' (Some ''bob'') None (Some ''Low''),
      mk_issue ''S-4'' ''Done'' None (Some 2) None]"


text \<open>Five issues of one assignee: the lower bound of the load level \<open>NORMAL\<close>.\<close>

definition five_issues_of_alice :: "issue list" where
  "five_issues_of_alice =
     map (\<lambda>k. mk_issue k ''To Do'' (Some ''alice'') None None)
       [''W-1'', ''W-2'', ''W-3'', ''W-4'', ''W-5'']"

text \<open>Boards for the velocity trend: three sprints that all use points (completed points
  9, 6 and 4, most recent first), two sprints with completed points 20 and 10, and two
  sprints of which only the more recent one carries points. For each board the data the
  tool collects from it is written out as well.\<close>

definition done_issue :: "string \<Rightarrow> rat option \<Rightarrow> issue" where
  "done_issue k pts = mk_issue k ''Done'' (Some ''alice'') pts None"

definition three_sprint_board :: jira where
  "three_sprint_board =
     tracker [mk_sprint 1 10, mk_sprint 2 20, mk_sprint 3 30]
       (\<lambda>n. if n = 3 then [done_issue ''T-3'' (Some 9)]
            else if n = 2 then [done_issue ''T-2'' (Some 6)]
            else [done_issue ''T-1'' (Some 4)]) []"

definition three_sprints_data :: "sprint_data list" where
  "three_sprints_data =
     [sprint_metrics (mk_sprint 3 30) [done_issue ''T-3'' (Some 9)],
      sprint_metrics (mk_sprint 2 20) [done_issue ''T-2'' (Some 6)],
      sprint_metrics (mk_sprint 1 10) [done_issue ''T-1'' (Some 4)]]"

definition two_sprints_data :: "sprint_data list" where
  "two_sprints_data =
     [sprint_metrics (mk_sprint 2 20) [done_issue ''U-2'' (Some 20)],
      sprint_metrics (mk_sprint 1 10) [done_issue ''U-1'' (Some 10)]]"



text \<open>Sprints for the dashboard: one assignee with two issues in progress; a single
  critical issue that is done; a single critical issue that is not started.\<close>

definition two_in_progress :: "issue list" where
  "two_in_progress =
     [mk_issue ''P-1'' ''In Progress'' (Some ''alice'') None (Some ''High''),
      mk_issue ''P-2'' ''In Progress'' (Some ''alice'') None (Some ''High'')]"

definition critical_done :: "issue list" where
  "critical_done = [mk_issue ''K-1'' ''Done'' (Some ''alice'') None (Some ''Critical'')]"

definition critical_todo :: "issue list" where
  "critical_todo = [mk_issue ''K-2'' ''To Do'' (Some ''alice'') None (Some ''Critical'')]"

section \<open>Auxiliary definitions\<close>

text \<open>The counters that the dashboard and the standalone analyzers both keep per key:
  per priority the total, completed and in-progress counts, per assignee the total and
  in-progress counts. They serve to relate the two groupings.\<close>

definition count_step :: "issue \<Rightarrow> nat \<times> nat \<times> nat \<Rightarrow> nat \<times> nat \<times> nat" where
  "count_step i c =
     (case c of (t, cp, ip) \<Rightarrow>
        (t + 1, if is_done i then cp + 1 else cp,
         if \<not> is_done i \<and> is_in_progress i then ip + 1 else ip))"

definition load_step :: "issue \<Rightarrow> nat \<times> nat \<Rightarrow> nat \<times> nat" where
  "load_step i c =
     (case c of (t, ip) \<Rightarrow> (t + 1, if \<not> is_done i \<and> is_in_progress i then ip + 1 else ip))"

section \<open>Unfolding the example inputs\<close>

lemmas eval_issue = mk_issue_def is_done_def is_in_progress_def story_points_of_def truthy_def
  priority_name_def assignee_name_def

lemmas eval_sprint_metrics = sprint_metrics_def velocity_loop_def velocity_step_def
  velocity_points_step_def velocity_init_def done_issue_def eval_issue

lemmas eval_dash = dashboard_def dash_recommendations_def dash_commitment_status_def
  dash_completion_rate_def dash_uses_story_points_def dash_loop_def dash_init_def dash_step_def
  dash_commitment_step_def dash_priority_step_def dash_workload_step_def
  dash_overloaded_members_def dash_wip_violators_def dash_critical_total_def
  dash_critical_in_progress_def dash_high_priority_percentage_def dash_high_priority_total_def
  get_count_def commitment_status_of_def Let_def

lemmas eval_workload = workload_analysis_def workload_step_def assignee_load_step_def
  assignee_load_default_def assess_load_def load_level_of_def overloaded_members_def
  wip_violators_def high_load_members_def get_count_def Let_def

lemmas eval_priority = sprint_analysis_def sprint_analysis_step_def priority_bucket_step_def
  priority_bucket_default_def critical_in_sprint_def critical_in_progress_def
  critical_completed_def high_priority_in_sprint_def high_priority_percentage_def
  total_sprint_issues_def get_count_def Let_def

section \<open>Properties of dictionaries with a default\<close>

text \<open>Keys stay distinct, an update touches one entry, and a projection of the values
  commutes with the grouping loop. The entry of a key after the loop is the fold of the
  per-entry step over the issues with that key.\<close>

lemma dd_update_keys:
  "map fst (dd_update k d f al) = (if k \<in> set (map fst al) then map fst al else map fst al @ [k])"
  by (induction al) (force simp: image_iff)+

lemma dd_update_distinct:
  "distinct (map fst al) \<Longrightarrow> distinct (map fst (dd_update k d f al))"
  by (simp add: dd_update_keys)

lemma dd_update_map_of:
  "map_of (dd_update k d f al) k'
     = (if k' = k then Some (f (case map_of al k of None \<Rightarrow> d | Some v \<Rightarrow> v)) else map_of al k')"
  by (induction al) auto

lemma dd_update_project:
  assumes "\<And>v. p (f v) = g (p v)"
  shows "map (apsnd p) (dd_update k d f al) = dd_update k (p d) g (map (apsnd p) al)"
  using assms by (induction al) auto

lemma dd_fold_project:
  assumes "\<And>i v. p (f i v) = g i (p v)"
  shows "map (apsnd p) (foldl (\<lambda>a i. dd_update (key i) d (f i) a) a js)
     = foldl (\<lambda>a i. dd_update (key i) (p d) (g i) a) (map (apsnd p) a) js"
proof (induction js arbitrary: a)
  case Nil
  show ?case by simp
next
  case (Cons i js)
  have "map (apsnd p) (dd_update (key i) d (f i) a) = dd_update (key i) (p d) (g i) (map (apsnd p) a)"
    by (rule dd_update_project) (rule assms)
  with Cons show ?case by simp
qed

lemma dd_fold_distinct:
  "distinct (map fst a) \<Longrightarrow> distinct (map fst (foldl (\<lambda>a i. dd_update (key i) d (f i) a) a js))"
  by (induction js arbitrary: a) (simp_all add: dd_update_distinct)

lemma dd_fold_map_of:
  "map_of (foldl (\<lambda>a i. dd_update (key i) d (f i) a) a js) k
     = (case map_of a k of
          None \<Rightarrow> (if filter (\<lambda>i. key i = k) js = [] then None
                    else Some (foldl (\<lambda>v i. f i v) d (filter (\<lambda>i. key i = k) js)))
        | Some v \<Rightarrow> Some (foldl (\<lambda>v i. f i v) v (filter (\<lambda>i. key i = k) js)))"
proof (induction js arbitrary: a)
  case Nil
  show ?case by (simp split: option.splits)
next
  case (Cons i js)
  show ?case
    by (simp add: Cons dd_update_map_of split: option.splits)
qed

lemma dd_fold_entry:
  assumes "(k, v) \<in> set (foldl (\<lambda>a i. dd_update (key i) d (f i) a) [] js)"
  shows "v = foldl (\<lambda>v i. f i v) d (filter (\<lambda>i. key i = k) js) \<and> filter (\<lambda>i. key i = k) js \<noteq> []"
proof -
  have "distinct (map fst (foldl (\<lambda>a i. dd_update (key i) d (f i) a) [] js))"
    by (rule dd_fold_distinct) simp
  with assms have "map_of (foldl (\<lambda>a i. dd_update (key i) d (f i) a) [] js) k = Some v"
    by simp
  then show ?thesis
    by (simp add: dd_fold_map_of split: if_splits)
qed

lemma dd_update_sum:
  assumes "\<And>v. m (f v) = m v + 1" and "m d = 0"
  shows "sum_list (map (\<lambda>(k, v). m v) (dd_update k d f al)) = sum_list (map (\<lambda>(k, v). m v) al) + (1::nat)"
  using assms by (induction al) auto

lemma dd_fold_sum:
  assumes "\<And>i v. m (f i v) = m v + 1" and "m d = 0"
  shows "sum_list (map (\<lambda>(k, v). m v) (foldl (\<lambda>a i. dd_update (key i) d (f i) a) a js))
     = sum_list (map (\<lambda>(k, v). m v) a) + length js"
proof (induction js arbitrary: a)
  case Nil
  show ?case by simp
next
  case (Cons i js)
  have "sum_list (map (\<lambda>(k, v). m v) (dd_update (key i) d (f i) a)) = sum_list (map (\<lambda>(k, v). m v) a) + 1"
    by (rule dd_update_sum) (simp_all add: assms)
  with Cons show ?case by simp
qed

section \<open>Properties of the commitment analyzer\<close>

lemma commitment_loop_Nil: "commitment_loop [] = commitment_init"
  by (simp add: commitment_loop_def)

text \<open>The totals of the loop in closed form: each one is a count or a sum over a sublist
  of the issues.\<close>

lemma commitment_fold_completed_issues:
  "completed_issues (foldl commitment_step t js) = completed_issues t + length (filter is_done js)"
  by (induction js arbitrary: t) (simp_all add: commitment_step_def commitment_status_step_def Let_def)



lemma commitment_fold_issues_with_points:
  "issues_with_points (foldl commitment_step t js)
     = issues_with_points t + length (filter (\<lambda>i. story_points_of i \<noteq> 0) js)"
  by (induction js arbitrary: t)
     (simp_all add: commitment_step_def commitment_status_step_def Let_def truthy_def)

lemma commitment_fold_total_committed_points:
  "total_committed_points (foldl commitment_step t js)
     = total_committed_points t + sum_list (map story_points_of js)"
  by (induction js arbitrary: t)
     (simp_all add: commitment_step_def commitment_status_step_def Let_def truthy_def)

lemma commitment_fold_completed_points:
  "completed_points (foldl commitment_step t js)
     = completed_points t + sum_list (map story_points_of (filter is_done js))"
  by (induction js arbitrary: t)
     (simp_all add: commitment_step_def commitment_status_step_def Let_def truthy_def)





text \<open>
  Claim C2. For a sprint whose issue set is empty the commitment analyzer should return
  total 0 and completion rate 0 without failing, and should never report the status
  \<open>SEVERELY_OVERCOMMITTED\<close>. The first half holds. The second does not: the guarded rate
  is 0, no branch treats a total of 0 apart, and the rate 0 falls through the threshold
  chain to its last branch. The theorem evaluates the tool on the empty sprint: it
  returns, with total 0 and rate 0, and the status it reports is
  \<open>SEVERELY_OVERCOMMITTED\<close>, together with the two urgent recommendations.
\<close>

theorem commitment_empty_sprint_reports_severe:
  "\<exists>r. analyze_sprint_commitment empty_sprint_tracker 1 = Inr r
     \<and> c_issues_total_committed r = 0 \<and> c_completion_rate r = 0
     \<and> c_status r = SEVERELY_OVERCOMMITTED
     \<and> c_recommendations r = [Severe_move_work, Severe_focus_highest]"
  by (simp add: analyze_sprint_commitment_def empty_sprint_tracker_def tracker_def mk_sprint_def
      commitment_analysis_def commitment_loop_Nil commitment_init_def primary_completion_rate_def
      uses_story_points_def issue_completion_rate_def commitment_status_of_def round1_def
      round_half_even_def commitment_recommendations_def work_in_progress_def work_remaining_def
      remaining_work_def)

text \<open>
  Claim C3. For every sprint issue set the commitment analyzer classifies the primary
  completion rate \<open>r\<close> on two separate scales: the status is \<open>ON_TRACK\<close> iff \<open>r \<ge> 80\<close>,
  \<open>AT_RISK\<close> iff \<open>60 \<le> r < 80\<close>, \<open>OVERCOMMITTED\<close> iff \<open>40 \<le> r < 60\<close> and
  \<open>SEVERELY_OVERCOMMITTED\<close> otherwise; the risk level is \<open>LOW\<close> iff \<open>r \<ge> 70\<close>, \<open>MEDIUM\<close>
  iff \<open>50 \<le> r < 70\<close> and \<open>HIGH\<close> otherwise. Both are computed from the unrounded rate.
\<close>

theorem commitment_classification_thresholds:
  "(c_status (commitment_analysis sid sp issues) = ON_TRACK
      \<longleftrightarrow> 80 \<le> primary_completion_rate issues)
   \<and> (c_status (commitment_analysis sid sp issues) = AT_RISK
      \<longleftrightarrow> 60 \<le> primary_completion_rate issues \<and> primary_completion_rate issues < 80)
   \<and> (c_status (commitment_analysis sid sp issues) = OVERCOMMITTED
      \<longleftrightarrow> 40 \<le> primary_completion_rate issues \<and> primary_completion_rate issues < 60)
   \<and> (c_status (commitment_analysis sid sp issues) = SEVERELY_OVERCOMMITTED
      \<longleftrightarrow> primary_completion_rate issues < 40)
   \<and> (c_risk_level (commitment_analysis sid sp issues) = LOW
      \<longleftrightarrow> 70 \<le> primary_completion_rate issues)
   \<and> (c_risk_level (commitment_analysis sid sp issues) = MEDIUM
      \<longleftrightarrow> 50 \<le> primary_completion_rate issues \<and> primary_completion_rate issues < 70)
   \<and> (c_risk_level (commitment_analysis sid sp issues) = HIGH
      \<longleftrightarrow> primary_completion_rate issues < 50)"
  by (simp add: commitment_analysis_def Let_def commitment_status_of_def risk_level_of_def)

lemma sum_list_nonneg_pos:
  fixes f :: "'a \<Rightarrow> rat"
  assumes "\<forall>x\<in>set xs. 0 \<le> f x" and "x \<in> set xs" and "0 < f x"
  shows "0 < sum_list (map f xs)"
proof -
  have "f x \<le> sum_list (map f xs)"
    using assms(1,2) by (intro member_le_sum_list) auto
  with assms(3) show ?thesis by simp
qed

lemma uses_story_points_iff:
  "uses_story_points issues \<longleftrightarrow> (\<exists>i\<in>set issues. story_points_of i \<noteq> 0)"
  by (simp add: uses_story_points_def commitment_loop_def commitment_fold_issues_with_points
      commitment_init_def filter_empty_conv)

lemma story_point_completion_rate_closed:
  "story_point_completion_rate issues =
     (if 0 < sum_list (map story_points_of issues)
      then sum_list (map story_points_of (filter is_done issues))
           / sum_list (map story_points_of issues) * 100
      else 0)"
  by (simp add: story_point_completion_rate_def Let_def commitment_loop_def commitment_init_def
      commitment_fold_total_committed_points commitment_fold_completed_points)

lemma issue_completion_rate_closed:
  "issue_completion_rate issues =
     (if issues = [] then 0
      else of_nat (length (filter is_done issues)) / of_nat (length issues) * 100)"
  by (simp add: issue_completion_rate_def Let_def commitment_loop_def commitment_init_def
      commitment_fold_completed_issues)

text \<open>
  Claim C7. For every sprint issue set whose story points are non-negative (the data
  model's invariant), the commitment analyzer takes the point completion rate as primary
  if and only if at least one issue has story points above 0, and the count completion
  rate otherwise: a sprint in which no issue carries points is count-based, never a
  point-based sprint of velocity zero. The point rate is the points of the done issues
  over all points, the count rate the number of done issues over the number of issues
  (0 for the empty sprint), both as percentages. (The source tests each issue's points
  for being nonzero; for non-negative points that is the test "above 0".)
\<close>

theorem commitment_metric_selection:
  assumes "\<forall>i\<in>set issues. 0 \<le> story_points_of i"
  shows "c_uses_story_points (commitment_analysis sid sp issues)
           = (\<exists>i\<in>set issues. 0 < story_points_of i)
     \<and> c_primary_metric (commitment_analysis sid sp issues)
           = (if \<exists>i\<in>set issues. 0 < story_points_of i then Story_points else Issue_count)
     \<and> primary_completion_rate issues
           = (if \<exists>i\<in>set issues. 0 < story_points_of i
              then sum_list (map story_points_of (filter is_done issues))
                   / sum_list (map story_points_of issues) * 100
              else if issues = [] then 0
              else of_nat (length (filter is_done issues)) / of_nat (length issues) * 100)
     \<and> c_completion_rate (commitment_analysis sid sp issues)
           = round1 (primary_completion_rate issues)
     \<and> c_status (commitment_analysis sid sp issues)
           = commitment_status_of (primary_completion_rate issues)"
proof -
  have u: "uses_story_points issues \<longleftrightarrow> (\<exists>i\<in>set issues. 0 < story_points_of i)"
    using assms unfolding uses_story_points_iff by (metis less_le)
  have "0 < sum_list (map story_points_of issues)" if "\<exists>i\<in>set issues. 0 < story_points_of i"
    using that assms by (auto intro: sum_list_nonneg_pos)
  then have "primary_completion_rate issues
           = (if \<exists>i\<in>set issues. 0 < story_points_of i
              then sum_list (map story_points_of (filter is_done issues))
                   / sum_list (map story_points_of issues) * 100
              else if issues = [] then 0
              else of_nat (length (filter is_done issues)) / of_nat (length issues) * 100)"
    by (simp add: primary_completion_rate_def u story_point_completion_rate_closed
        issue_completion_rate_closed)
  then show ?thesis
    by (simp add: commitment_analysis_def Let_def u)
qed

theorem commitment_metric_selection_witness:
  "list_all (\<lambda>i. 0 \<le> story_points_of i) sample_issues
   \<and> c_uses_story_points (commitment_analysis 1 (mk_sprint 1 10) sample_issues)
   \<and> c_primary_metric (commitment_analysis 1 (mk_sprint 1 10) sample_issues) = Story_points
   \<and> primary_completion_rate sample_issues = 70
   \<and> list_all (\<lambda>i. 0 \<le> story_points_of i) five_issues_of_alice
   \<and> \<not> c_uses_story_points (commitment_analysis 1 (mk_sprint 1 10) five_issues_of_alice)
   \<and> c_primary_metric (commitment_analysis 1 (mk_sprint 1 10) five_issues_of_alice) = Issue_count
   \<and> primary_completion_rate five_issues_of_alice = 0"
proof -
  have a: "\<forall>i\<in>set sample_issues. 0 \<le> story_points_of i"
    by (simp add: sample_issues_def eval_issue)
  have b: "\<forall>i\<in>set five_issues_of_alice. 0 \<le> story_points_of i"
    by (simp add: five_issues_of_alice_def eval_issue)
  have a': "\<exists>i\<in>set sample_issues. 0 < story_points_of i"
    by (simp add: sample_issues_def eval_issue)
  have b': "\<not> (\<exists>i\<in>set five_issues_of_alice. 0 < story_points_of i)"
    by (simp add: five_issues_of_alice_def eval_issue)
  have a'': "sum_list (map story_points_of (filter is_done sample_issues))
                   / sum_list (map story_points_of sample_issues) * 100 = 70"
    by (simp add: sample_issues_def eval_issue)
  have b'': "(if five_issues_of_alice = [] then 0
              else of_nat (length (filter is_done five_issues_of_alice)) / of_nat (length five_issues_of_alice) * 100) = (0::rat)"
    by (simp add: five_issues_of_alice_def eval_issue)
  show ?thesis
    using commitment_metric_selection [OF a, of 1 "mk_sprint 1 10"]
      commitment_metric_selection [OF b, of 1 "mk_sprint 1 10"] a b a' b' a'' b''
    by (simp add: list_all_iff)
qed

section \<open>Properties of the velocity trend analyzer\<close>

lemma sorted_sprints_single: "sorted_sprints [mk_sprint n d] = [mk_sprint n d]"
  by (simp add: sorted_sprints_def mk_sprint_def)

text \<open>
  Claim C1. When the filtered sprint window of a board holds exactly one sprint, the
  velocity trend analyzer should complete and report \<open>INSUFFICIENT_DATA\<close> with a
  percentage change of 0; once the issues are fetched the analysis should not fail.
  The source assigns the local \<^verbatim>\<open>uses_points\<close> only in the branch for two or more
  sprints and reads it afterwards in every case. The theorem evaluates the tool on a
  board with one dated sprint whose issues are fetched without error: the tool does not
  return a report, it raises, and the handler turns that into status 500.
\<close>

theorem velocity_trend_single_sprint_raises:
  "analyze_velocity_trend one_sprint_board 7 3
     = Inl (HTTPException 500 (Unbound_local ''uses_points''))"
  by (simp add: analyze_velocity_trend_def one_sprint_board_def tracker_def target_sprints_def
      sorted_sprints_single py_take_def velocity_analysis_def trend_calc_def)

text \<open>The same happens on every board whose window holds fewer than two sprints: the tool
  never returns a report. The other four tools have no such path: once their client
  calls have returned, they return their analysis.\<close>

lemma collect_velocity_data_length:
  "collect_velocity_data client sps = Inr vd \<Longrightarrow> length vd = length sps"
  by (induction sps arbitrary: vd) (auto split: sum.splits)

lemma velocity_analysis_short_window:
  "length vd < 2 \<Longrightarrow> velocity_analysis b n vd = Inl (Unbound_local ''uses_points'')"
  by (simp add: velocity_analysis_def trend_calc_def)

lemma velocity_trend_short_window_raises:
  assumes "get_sprints client b = Inr sprints" and "length (target_sprints sprints n) < 2"
  shows "\<exists>e. analyze_velocity_trend client b n = Inl (HTTPException 500 e)"
proof (cases "collect_velocity_data client (target_sprints sprints n)")
  case (Inl e)
  with assms(1) show ?thesis by (simp add: analyze_velocity_trend_def)
next
  case (Inr vd)
  then have "length vd < 2"
    using assms(2) by (simp add: collect_velocity_data_length)
  then have "velocity_analysis b n vd = Inl (Unbound_local ''uses_points'')"
    by (rule velocity_analysis_short_window)
  with assms(1) Inr show ?thesis by (simp add: analyze_velocity_trend_def)
qed

lemma other_tools_return_after_fetch:
  assumes "get_sprint client sid = Inr sp" and "search_issues client (Sprint_eq sid) 200 = Inr js"
  shows "analyze_sprint_commitment client sid = Inr (commitment_analysis sid sp js)"
    and "analyze_team_workload client b sid = Inr (team_workload_analysis sid sp js)"
    and "sprint_health_dashboard client b sid
           = Inr (if js = [] then No_issues_found sid sp else Dashboard (dashboard b sid sp js))"
    and "\<And>backlog. js \<noteq> [] \<Longrightarrow>
           search_issues client (Backlog_of (project_key (hd js))) 100 = Inr backlog \<Longrightarrow>
           analyze_priority_focus client b sid = Inr (priority_focus_analysis sid sp js backlog)"
  using assms
  by (simp_all add: analyze_sprint_commitment_def analyze_team_workload_def
      sprint_health_dashboard_def analyze_priority_focus_def)

lemma take_two_sum:
  fixes vs :: "rat list"
  assumes "2 \<le> length vs"
  shows "sum_list (take 2 vs) = vs ! 0 + vs ! 1"
proof -
  from assms obtain a b rest where "vs = a # b # rest"
    by (cases vs; cases "tl vs") auto
  then show ?thesis by simp
qed

lemma last_two_sum:
  fixes vs :: "rat list"
  assumes "2 \<le> length vs"
  shows "sum_list (drop (length vs - 2) vs) = vs ! (length vs - 2) + vs ! (length vs - 1)"
proof -
  have "drop (length vs - 2) vs = vs ! (length vs - 2) # drop (Suc (length vs - 2)) vs"
    using assms by (intro Cons_nth_drop_Suc [symmetric]) simp
  moreover have "Suc (length vs - 2) = length vs - 1"
    using assms by simp
  moreover have "drop (length vs - 1) vs = vs ! (length vs - 1) # drop (Suc (length vs - 1)) vs"
    using assms by (intro Cons_nth_drop_Suc [symmetric]) simp
  ultimately show ?thesis using assms by simp
qed

lemma velocities_of_length: "length (velocities_of vd) \<le> length vd"
  by (simp add: velocities_of_def)

lemma velocities_of_nonneg:
  assumes "\<forall>s\<in>set vd. 0 \<le> sd_points_velocity s"
  shows "\<forall>v\<in>set (velocities_of vd). 0 \<le> v"
  using assms by (auto simp: velocities_of_def)

lemma sum_list_nonneg_rat: "\<forall>v\<in>set vs. (0::rat) \<le> v \<Longrightarrow> 0 \<le> sum_list vs"
  by (induction vs) simp_all

lemma older_avg_nonneg:
  assumes "\<forall>v\<in>set vs. (0::rat) \<le> v"
  shows "2 \<le> length vs \<Longrightarrow> 0 \<le> older_avg vs"
proof -
  assume "2 \<le> length vs"
  have "\<forall>v\<in>set (drop (length vs - 2) vs). 0 \<le> v"
    using assms by (meson in_set_dropD)
  then have "0 \<le> sum_list (drop (length vs - 2) vs)" by (rule sum_list_nonneg_rat)
  with \<open>2 \<le> length vs\<close> show ?thesis by (simp add: older_avg_def)
qed

lemma velocity_fold_completed_issues:
  "v_completed_issues (foldl velocity_step t js) = v_completed_issues t + length (filter is_done js)"
  by (induction js arbitrary: t) (simp_all add: velocity_step_def velocity_points_step_def Let_def)

lemma velocity_fold_issues_with_points:
  "v_issues_with_points (foldl velocity_step t js)
     = v_issues_with_points t + length (filter (\<lambda>i. story_points_of i \<noteq> 0) js)"
  by (induction js arbitrary: t)
     (simp_all add: velocity_step_def velocity_points_step_def Let_def truthy_def)

lemma velocity_fold_completed_points:
  "v_completed_points (foldl velocity_step t js)
     = v_completed_points t + sum_list (map story_points_of (filter is_done js))"
  by (induction js arbitrary: t)
     (simp_all add: velocity_step_def velocity_points_step_def Let_def truthy_def)

lemma sprint_metrics_closed:
  "sd_uses_story_points (sprint_metrics sp js) \<longleftrightarrow> (\<exists>i\<in>set js. story_points_of i \<noteq> 0)"
  "sd_points_velocity (sprint_metrics sp js) = sum_list (map story_points_of (filter is_done js))"
  "sd_issues_velocity (sprint_metrics sp js) = length (filter is_done js)"
  by (simp_all add: sprint_metrics_def Let_def velocity_loop_def velocity_init_def
      velocity_fold_completed_issues velocity_fold_issues_with_points
      velocity_fold_completed_points filter_empty_conv)

lemma sprint_metrics_velocity_nonneg:
  assumes "\<forall>i\<in>set js. 0 \<le> story_points_of i"
  shows "0 \<le> sd_points_velocity (sprint_metrics sp js)"
  unfolding sprint_metrics_closed using assms by (intro sum_list_nonneg_rat) auto

lemma three_velocities: "velocities_of three_sprints_data = [9, 6, 4]"
  by (simp add: velocities_of_def any_uses_points_def three_sprints_data_def eval_sprint_metrics)

lemma two_velocities: "velocities_of two_sprints_data = [20, 10]"
  by (simp add: velocities_of_def any_uses_points_def two_sprints_data_def eval_sprint_metrics)

lemma three_board_data:
  "collect_velocity_data three_sprint_board (target_sprints [mk_sprint 1 10, mk_sprint 2 20, mk_sprint 3 30] 3)
     = Inr three_sprints_data"
  by (simp add: target_sprints_def sorted_sprints_def py_take_def mk_sprint_def three_sprint_board_def
      tracker_def three_sprints_data_def)



text \<open>
  Claim C4. For every velocity series with at least two values, taken from sprints whose
  completed points are non-negative (they are whenever the story points are, which is
  the data model's invariant), the recent average is the mean of the first two
  velocities and the older average the mean of the last two; the
  direction is \<open>UP\<close> iff the recent average is greater, \<open>DOWN\<close> iff it is smaller,
  \<open>STABLE\<close> iff they are equal; the percentage change is
  \<open>(recent - older) / older * 100\<close>, and 0 when the older average is 0 (reported rounded
  to one decimal). With exactly two velocities the two windows coincide, so the
  direction is \<open>STABLE\<close> and the percentage 0.
\<close>

theorem velocity_trend_direction_and_change:
  assumes "2 \<le> length (velocities_of vd)"
    and "\<forall>s\<in>set vd. 0 \<le> sd_points_velocity s"
  shows "\<exists>r. velocity_analysis b n vd = Inr r
     \<and> (let vs = velocities_of vd;
            recent = (vs ! 0 + vs ! 1) / 2;
            older = (vs ! (length vs - 2) + vs ! (length vs - 1)) / 2
        in recent_avg vs = recent \<and> older_avg vs = older
         \<and> vr_direction r = (if older < recent then UP else if recent < older then DOWN else STABLE)
         \<and> vr_percentage_change r
              = round1 (if older = 0 then 0 else (recent - older) / older * 100)
         \<and> (length vs = 2 \<longrightarrow> vr_direction r = STABLE \<and> vr_percentage_change r = 0))"
proof -
  let ?vs = "velocities_of vd"
  let ?recent = "(?vs ! 0 + ?vs ! 1) / 2"
  let ?older = "(?vs ! (length ?vs - 2) + ?vs ! (length ?vs - 1)) / 2"
  from assms(1) have len: "2 \<le> length vd"
    using velocities_of_length [of vd] by simp
  have rec: "recent_avg ?vs = ?recent"
    using assms(1) by (simp add: recent_avg_def take_two_sum)
  have old: "older_avg ?vs = ?older"
    using assms(1) by (simp add: older_avg_def last_two_sum)
  have "0 \<le> older_avg ?vs"
    using velocities_of_nonneg [OF assms(2)] assms(1) by (rule older_avg_nonneg)
  then have nonneg: "0 \<le> ?older" by (simp only: old)
  have same: "?recent = ?older" if "length ?vs = 2"
    using that by simp
  have round0: "round1 0 = 0"
    by (simp add: round1_def round_half_even_def)
  define r where "r = \<lparr>vr_board_id = b, vr_analysis_period = n, vr_sprints_analyzed = length vd,
               vr_direction = trend_direction (trend_calc vd),
               vr_percentage_change = round1 (trend_percentage (trend_calc vd)),
               vr_average_velocity = round1 (average_velocity (trend_calc vd)),
               vr_uses_story_points = any_uses_points vd,
               vr_metric_type = (if any_uses_points vd then Story_points else Issue_count),
               vr_sprint_details = vd,
               vr_recommendations = velocity_recommendations (trend_direction (trend_calc vd))\<rparr>"
  have res: "velocity_analysis b n vd = Inr r"
    using len by (simp add: velocity_analysis_def Let_def trend_calc_def r_def)
  have dir: "vr_direction r = (if ?older < ?recent then UP else if ?recent < ?older then DOWN else STABLE)"
    using len assms(1) by (simp add: r_def trend_calc_def Let_def rec old)
  have pct: "vr_percentage_change r = round1 (if ?older = 0 then 0 else (?recent - ?older) / ?older * 100)"
  proof (cases "?older = 0")
    case True
    then show ?thesis
      using len assms(1) by (simp add: r_def trend_calc_def Let_def rec old)
  next
    case False
    with nonneg have "0 < ?older" by simp
    with False show ?thesis
      using len assms(1) by (simp add: r_def trend_calc_def Let_def rec old)
  qed
  have two: "vr_direction r = STABLE \<and> vr_percentage_change r = 0" if "length ?vs = 2"
    using same [OF that] dir pct by (simp add: round0)
  show ?thesis
    using res rec old dir pct two by (simp add: Let_def)
qed

theorem velocity_trend_direction_and_change_witness:
  "(\<exists>r. velocity_analysis 7 3 three_sprints_data = Inr r
       \<and> vr_direction r = UP \<and> vr_percentage_change r = 50)
   \<and> (\<exists>r. velocity_analysis 7 2 two_sprints_data = Inr r
       \<and> vr_direction r = STABLE \<and> vr_percentage_change r = 0)
   \<and> recent_avg (velocities_of three_sprints_data) = 15 / 2
   \<and> older_avg (velocities_of three_sprints_data) = 5
   \<and> recent_avg (velocities_of two_sprints_data) = 15
   \<and> older_avg (velocities_of two_sprints_data) = 15"
proof -
  have a1: "2 \<le> length (velocities_of three_sprints_data)" by (simp add: three_velocities)
  have a2: "\<forall>s\<in>set three_sprints_data. 0 \<le> sd_points_velocity s"
    by (simp add: three_sprints_data_def eval_sprint_metrics)
  have b1: "2 \<le> length (velocities_of two_sprints_data)" by (simp add: two_velocities)
  have b2: "\<forall>s\<in>set two_sprints_data. 0 \<le> sd_points_velocity s"
    by (simp add: two_sprints_data_def eval_sprint_metrics)
  have r50: "round1 50 = 50" by (simp add: round1_def round_half_even_def)
  from velocity_trend_direction_and_change [OF a1 a2, of 7 3] obtain r where
    "velocity_analysis 7 3 three_sprints_data = Inr r \<and> vr_direction r = UP
       \<and> vr_percentage_change r = 50
       \<and> recent_avg (velocities_of three_sprints_data) = 15 / 2
       \<and> older_avg (velocities_of three_sprints_data) = 5"
    by (auto simp: three_velocities Let_def r50)
  moreover from velocity_trend_direction_and_change [OF b1 b2, of 7 2] obtain r' where
    "velocity_analysis 7 2 two_sprints_data = Inr r' \<and> vr_direction r' = STABLE
       \<and> vr_percentage_change r' = 0
       \<and> recent_avg (velocities_of two_sprints_data) = 15
       \<and> older_avg (velocities_of two_sprints_data) = 15"
    by (auto simp: two_velocities Let_def)
  ultimately show ?thesis by blast
qed




section \<open>Properties of the priority focus analyzer\<close>

text \<open>
  Claim C10. For a sprint whose issue set is empty the priority focus analyzer makes no
  backlog search: whatever the client would answer to a backlog query (any number of
  critical issues, or an exception), the tool returns the analysis of the empty sprint
  against the empty backlog, which reports no critical backlog item, no missed critical
  item and the coverage \<open>GOOD\<close>. The client is arbitrary but for its answers to the
  sprint lookup and to the sprint query.
\<close>

theorem priority_focus_empty_sprint_ignores_backlog:
  assumes "get_sprint client sid = Inr sp"
    and "search_issues client (Sprint_eq sid) 200 = Inr []"
  shows "analyze_priority_focus client board_id sid = Inr (priority_focus_analysis sid sp [] [])
     \<and> pf_critical_in_backlog_total (priority_focus_analysis sid sp [] []) = 0
     \<and> pf_missed_critical_items (priority_focus_analysis sid sp [] []) = 0
     \<and> pf_critical_coverage (priority_focus_analysis sid sp [] []) = GOOD"
  using assms
  by (simp add: analyze_priority_focus_def priority_focus_analysis_def critical_in_backlog_def
      backlog_analysis_def get_count_def)

text \<open>The tracker of the witness has two critical issues in its backlog.\<close>

theorem priority_focus_empty_sprint_ignores_backlog_witness:
  "analyze_priority_focus empty_sprint_tracker 7 1
       = Inr (priority_focus_analysis 1 (mk_sprint 1 10) [] [])
     \<and> pf_critical_in_backlog_total (priority_focus_analysis 1 (mk_sprint 1 10) [] []) = 0
     \<and> pf_missed_critical_items (priority_focus_analysis 1 (mk_sprint 1 10) [] []) = 0
     \<and> pf_critical_coverage (priority_focus_analysis 1 (mk_sprint 1 10) [] []) = GOOD
     \<and> search_issues empty_sprint_tracker (Backlog_of ''PRJ'') 100 = Inr critical_backlog
     \<and> critical_in_backlog critical_backlog = 2"
proof -
  have a: "get_sprint empty_sprint_tracker 1 = Inr (mk_sprint 1 10)"
    by (simp add: empty_sprint_tracker_def tracker_def mk_sprint_def)
  have b: "search_issues empty_sprint_tracker (Sprint_eq 1) 200 = Inr []"
    by (simp add: empty_sprint_tracker_def tracker_def)
  have c: "search_issues empty_sprint_tracker (Backlog_of ''PRJ'') 100 = Inr critical_backlog"
    by (simp add: empty_sprint_tracker_def tracker_def critical_backlog_def)
  have d: "critical_in_backlog critical_backlog = 2"
    by (simp add: critical_in_backlog_def backlog_analysis_def backlog_analysis_step_def
        priority_name_def mk_issue_def get_count_def critical_backlog_def)
  show ?thesis
    using priority_focus_empty_sprint_ignores_backlog [OF a b, of 7] c d by simp
qed

section \<open>Bucket sums\<close>

lemma sprint_analysis_fold:
  "sprint_analysis js
     = foldl (\<lambda>a i. dd_update (priority_name i) priority_bucket_default (priority_bucket_step i) a) [] js"
  by (simp add: sprint_analysis_def sprint_analysis_step_def [abs_def])

lemma priority_bucket_total: "pb_total (priority_bucket_step i b) = pb_total b + 1"
  by (simp add: priority_bucket_step_def Let_def)



lemma total_sprint_issues_length: "total_sprint_issues js = length js"
proof -
  have "sum_list (map (\<lambda>(k, v). pb_total v)
          (foldl (\<lambda>a i. dd_update (priority_name i) priority_bucket_default (priority_bucket_step i) a) [] js))
        = sum_list (map (\<lambda>(k, v). pb_total v) []) + length js"
    using dd_fold_sum [where m = pb_total and f = priority_bucket_step
        and d = priority_bucket_default and key = priority_name and a = "[]" and js = js]
    by (simp add: priority_bucket_total priority_bucket_default_def)
  then show ?thesis
    by (simp add: total_sprint_issues_def sprint_analysis_fold)
qed

lemma workload_fold:
  "foldl workload_step a js
     = foldl (\<lambda>a i. dd_update (assignee_name i) assignee_load_default (assignee_load_step i) a) a js"
  by (simp add: workload_step_def [abs_def])

lemma assignee_load_fold_counts:
  "al_todo_count d + al_in_progress_count d + al_completed_count d = al_total_issues d \<Longrightarrow>
   al_todo_count (foldl (\<lambda>v i. assignee_load_step i v) d js)
     + al_in_progress_count (foldl (\<lambda>v i. assignee_load_step i v) d js)
     + al_completed_count (foldl (\<lambda>v i. assignee_load_step i v) d js)
     = al_total_issues (foldl (\<lambda>v i. assignee_load_step i v) d js)"
  by (induction js arbitrary: d) (simp_all add: assignee_load_step_def Let_def)

lemma assignee_load_fold_total:
  "al_total_issues (foldl (\<lambda>v i. assignee_load_step i v) d js) = al_total_issues d + length js"
  by (induction js arbitrary: d) (simp_all add: assignee_load_step_def Let_def)

lemma assess_load_counts:
  "al_total_issues (assess_load d) = al_total_issues d"
  "al_todo_count (assess_load d) = al_todo_count d"
  "al_in_progress_count (assess_load d) = al_in_progress_count d"
  "al_completed_count (assess_load d) = al_completed_count d"
  "al_wip_violations (assess_load d) = al_wip_violations d"
  "al_load_level (assess_load d) = load_level_of (al_total_issues d)"
  by (simp_all add: assess_load_def Let_def)

lemma workload_analysis_entry:
  assumes "(a, d) \<in> set (workload_analysis js)"
  shows "\<exists>d0. d = assess_load d0
     \<and> d0 = foldl (\<lambda>v i. assignee_load_step i v) assignee_load_default
              (filter (\<lambda>i. assignee_name i = a) js)"
proof -
  from assms obtain d0 where d: "d = assess_load d0" and m: "(a, d0) \<in> set (foldl workload_step [] js)"
    by (auto simp: workload_analysis_def)
  from m have "d0 = foldl (\<lambda>v i. assignee_load_step i v) assignee_load_default
                         (filter (\<lambda>i. assignee_name i = a) js)"
    unfolding workload_fold by (rule dd_fold_entry [THEN conjunct1])
  with d show ?thesis by simp
qed

lemma workload_entry_counts:
  assumes "(a, d) \<in> set (workload_analysis js)"
  shows "al_todo_count d + al_in_progress_count d + al_completed_count d = al_total_issues d"
    and "al_total_issues d = length (filter (\<lambda>i. assignee_name i = a) js)"
    and "al_load_level d = load_level_of (al_total_issues d)"
  using workload_analysis_entry [OF assms]
  by (auto simp: assess_load_counts assignee_load_fold_counts assignee_load_fold_total
      assignee_load_default_def)








lemma commitment_step_with_exact: "commitment_step_with (+) t i = commitment_step t i"
  by (simp add: commitment_step_with_def commitment_status_step_with_def commitment_step_def
      commitment_status_step_def)














text \<open>
  Claim C9. For every assignee of the workload analyzer the load level is a function of
  that assignee's total issue count, which is the number of sprint issues assigned to
  them: \<open>OVERLOADED\<close> iff the total is at least 13, \<open>HIGH\<close> iff it is from 9 to 12,
  \<open>NORMAL\<close> iff it is from 5 to 8, \<open>LIGHT\<close> below 5. The bounds 5, 9 and 13 are the
  least totals of \<open>NORMAL\<close>, \<open>HIGH\<close> and \<open>OVERLOADED\<close>.
\<close>

theorem workload_load_level_by_issue_count:
  "\<forall>(a, d) \<in> set (wl_individual_workloads (team_workload_analysis sid sp js)).
      al_total_issues d = length (filter (\<lambda>i. assignee_name i = a) js)
    \<and> (al_load_level d = OVERLOADED \<longleftrightarrow> 13 \<le> al_total_issues d)
    \<and> (al_load_level d = HIGH_LOAD \<longleftrightarrow> 9 \<le> al_total_issues d \<and> al_total_issues d < 13)
    \<and> (al_load_level d = NORMAL \<longleftrightarrow> 5 \<le> al_total_issues d \<and> al_total_issues d < 9)
    \<and> (al_load_level d = LIGHT \<longleftrightarrow> al_total_issues d < 5)"
proof -
  have "al_total_issues d = length (filter (\<lambda>i. assignee_name i = a) js)
    \<and> (al_load_level d = OVERLOADED \<longleftrightarrow> 13 \<le> al_total_issues d)
    \<and> (al_load_level d = HIGH_LOAD \<longleftrightarrow> 9 \<le> al_total_issues d \<and> al_total_issues d < 13)
    \<and> (al_load_level d = NORMAL \<longleftrightarrow> 5 \<le> al_total_issues d \<and> al_total_issues d < 9)
    \<and> (al_load_level d = LIGHT \<longleftrightarrow> al_total_issues d < 5)"
    if "(a, d) \<in> set (workload_analysis js)" for a d
    using workload_entry_counts(2,3) [OF that] by (simp add: load_level_of_def)
  then show ?thesis
    by (auto simp: team_workload_analysis_def Let_def)
qed

theorem workload_load_level_by_issue_count_witness:
  "\<exists>d. (''alice'', d) \<in> set (wl_individual_workloads
           (team_workload_analysis 1 (mk_sprint 1 10) five_issues_of_alice))
      \<and> al_total_issues d = 5 \<and> al_load_level d = NORMAL"
proof -
  have "map_of (workload_analysis five_issues_of_alice) ''alice'' \<noteq> None"
    by (simp add: workload_analysis_def workload_step_def five_issues_of_alice_def eval_issue)
  then obtain d where "(''alice'', d) \<in> set (workload_analysis five_issues_of_alice)"
    by (auto dest: map_of_SomeD)
  then have d: "(''alice'', d) \<in> set (wl_individual_workloads
           (team_workload_analysis 1 (mk_sprint 1 10) five_issues_of_alice))"
    by (simp add: team_workload_analysis_def Let_def)
  have "length (filter (\<lambda>i. assignee_name i = ''alice'') five_issues_of_alice) = 5"
    by (simp add: five_issues_of_alice_def eval_issue)
  with d workload_load_level_by_issue_count [of 1 "mk_sprint 1 10" five_issues_of_alice] have "al_total_issues d = 5 \<and> al_load_level d = NORMAL"
    by fastforce
  with d show ?thesis by blast
qed

section \<open>Properties of the dashboard composer\<close>

text \<open>The single loop of the dashboard computes the same figures as the loops of the
  standalone analyzers: the completion rate of the commitment analyzer, the counts per
  priority of the priority focus analyzer, and the counts per assignee of the workload
  analyzer, with the keys in the same order.\<close>

lemma dash_fold_priority_breakdown:
  "d_priority_breakdown (foldl dash_step s js)
     = foldl (\<lambda>a i. dd_update (priority_name i) \<lparr>dp_total = 0, dp_completed = 0, dp_in_progress = 0\<rparr>
                 (dash_priority_step i) a) (d_priority_breakdown s) js"
  by (induction js arbitrary: s) (simp_all add: dash_step_def dash_commitment_step_def Let_def)

lemma dash_fold_workload:
  "d_workload_by_assignee (foldl dash_step s js)
     = foldl (\<lambda>a i. dd_update (assignee_name i)
                 \<lparr>dw_total_issues = 0, dw_in_progress_count = 0, dw_completed_count = 0,
                  dw_story_points = 0, dw_high_priority_count = 0\<rparr>
                 (dash_workload_step i) a) (d_workload_by_assignee s) js"
  by (induction js arbitrary: s) (simp_all add: dash_step_def dash_commitment_step_def Let_def)

lemma dash_fold_completed_issues:
  "d_completed_issues (foldl dash_step s js) = d_completed_issues s + length (filter is_done js)"
  by (induction js arbitrary: s) (simp_all add: dash_step_def dash_commitment_step_def Let_def)

lemma dash_fold_issues_with_points:
  "d_issues_with_points (foldl dash_step s js)
     = d_issues_with_points s + length (filter (\<lambda>i. story_points_of i \<noteq> 0) js)"
  by (induction js arbitrary: s)
     (simp_all add: dash_step_def dash_commitment_step_def Let_def truthy_def)

lemma dash_fold_total_committed_points:
  "d_total_committed_points (foldl dash_step s js)
     = d_total_committed_points s + sum_list (map story_points_of js)"
  by (induction js arbitrary: s)
     (simp_all add: dash_step_def dash_commitment_step_def Let_def truthy_def)

lemma dash_fold_completed_points:
  "d_completed_points (foldl dash_step s js)
     = d_completed_points s + sum_list (map story_points_of (filter is_done js))"
  by (induction js arbitrary: s)
     (simp_all add: dash_step_def dash_commitment_step_def Let_def truthy_def)

lemma dash_completion_rate_eq: "dash_completion_rate js = primary_completion_rate js"
  by (simp add: dash_completion_rate_def dash_uses_story_points_def dash_loop_def dash_init_def
      dash_fold_completed_issues dash_fold_issues_with_points dash_fold_total_committed_points
      dash_fold_completed_points Let_def primary_completion_rate_def uses_story_points_def
      story_point_completion_rate_def issue_completion_rate_def commitment_loop_def
      commitment_init_def commitment_fold_completed_issues commitment_fold_issues_with_points
      commitment_fold_total_committed_points commitment_fold_completed_points)

lemma get_count_project:
  "get_count (map (apsnd p) al) k f = get_count al k (\<lambda>v. f (p v))"
  by (induction al) (auto simp: get_count_def)

lemma filter_project:
  "map fst (filter (\<lambda>(k, v). Q k (p v)) al) = map fst (filter (\<lambda>(k, u). Q k u) (map (apsnd p) al))"
  by (induction al) auto

lemma dash_priority_project:
  "map (apsnd (\<lambda>b. (dp_total b, dp_completed b, dp_in_progress b))) (d_priority_breakdown (dash_loop js))
     = foldl (\<lambda>a i. dd_update (priority_name i) (0, 0, 0) (count_step i) a) [] js"
proof -
  have step: "(dp_total (dash_priority_step i v), dp_completed (dash_priority_step i v),
               dp_in_progress (dash_priority_step i v))
              = count_step i (dp_total v, dp_completed v, dp_in_progress v)" for i v
    by (simp add: dash_priority_step_def count_step_def Let_def)
  show ?thesis
    using dd_fold_project [where p = "\<lambda>b. (dp_total b, dp_completed b, dp_in_progress b)"
        and f = dash_priority_step and g = count_step and key = priority_name
        and d = "\<lparr>dp_total = 0, dp_completed = 0, dp_in_progress = 0\<rparr>" and a = "[]" and js = js,
        OF step]
    by (simp add: dash_loop_def dash_fold_priority_breakdown dash_init_def)
qed

lemma sprint_analysis_project:
  "map (apsnd (\<lambda>b. (pb_total b, pb_completed b, pb_in_progress b))) (sprint_analysis js)
     = foldl (\<lambda>a i. dd_update (priority_name i) (0, 0, 0) (count_step i) a) [] js"
proof -
  have step: "(pb_total (priority_bucket_step i v), pb_completed (priority_bucket_step i v),
               pb_in_progress (priority_bucket_step i v))
              = count_step i (pb_total v, pb_completed v, pb_in_progress v)" for i v
    by (simp add: priority_bucket_step_def count_step_def Let_def)
  show ?thesis
    using dd_fold_project [where p = "\<lambda>b. (pb_total b, pb_completed b, pb_in_progress b)"
        and f = priority_bucket_step and g = count_step and key = priority_name
        and d = priority_bucket_default and a = "[]" and js = js, OF step]
    by (simp add: sprint_analysis_fold priority_bucket_default_def)
qed

lemma dash_priority_counts:
  "get_count (d_priority_breakdown (dash_loop js)) k dp_total = get_count (sprint_analysis js) k pb_total"
  "get_count (d_priority_breakdown (dash_loop js)) k dp_in_progress
     = get_count (sprint_analysis js) k pb_in_progress"
  "get_count (d_priority_breakdown (dash_loop js)) k dp_completed
     = get_count (sprint_analysis js) k pb_completed"
proof -
  let ?c = "foldl (\<lambda>a i. dd_update (priority_name i) (0, 0, 0) (count_step i) a) [] js"
  have "get_count (d_priority_breakdown (dash_loop js)) k dp_total = get_count ?c k fst"
    unfolding dash_priority_project [symmetric] by (simp add: get_count_project)
  moreover have "get_count (sprint_analysis js) k pb_total = get_count ?c k fst"
    unfolding sprint_analysis_project [symmetric] by (simp add: get_count_project)
  ultimately show "get_count (d_priority_breakdown (dash_loop js)) k dp_total
     = get_count (sprint_analysis js) k pb_total" by simp
  have "get_count (d_priority_breakdown (dash_loop js)) k dp_in_progress = get_count ?c k (\<lambda>c. snd (snd c))"
    unfolding dash_priority_project [symmetric] by (simp add: get_count_project)
  moreover have "get_count (sprint_analysis js) k pb_in_progress = get_count ?c k (\<lambda>c. snd (snd c))"
    unfolding sprint_analysis_project [symmetric] by (simp add: get_count_project)
  ultimately show "get_count (d_priority_breakdown (dash_loop js)) k dp_in_progress
     = get_count (sprint_analysis js) k pb_in_progress" by simp
  have "get_count (d_priority_breakdown (dash_loop js)) k dp_completed = get_count ?c k (\<lambda>c. fst (snd c))"
    unfolding dash_priority_project [symmetric] by (simp add: get_count_project)
  moreover have "get_count (sprint_analysis js) k pb_completed = get_count ?c k (\<lambda>c. fst (snd c))"
    unfolding sprint_analysis_project [symmetric] by (simp add: get_count_project)
  ultimately show "get_count (d_priority_breakdown (dash_loop js)) k dp_completed
     = get_count (sprint_analysis js) k pb_completed" by simp
qed

lemma dash_critical_eq:
  "dash_critical_total js = critical_in_sprint js"
  "dash_critical_in_progress js = critical_in_progress js"
  by (simp_all add: dash_critical_total_def dash_critical_in_progress_def critical_in_sprint_def
      critical_in_progress_def dash_priority_counts)

lemma dash_high_priority_percentage_eq:
  "dash_high_priority_percentage js = high_priority_percentage js"
  by (simp add: dash_high_priority_percentage_def high_priority_percentage_def
      dash_high_priority_total_def high_priority_in_sprint_def dash_priority_counts
      total_sprint_issues_length)

lemma dash_workload_project:
  "map (apsnd (\<lambda>d. (dw_total_issues d, dw_in_progress_count d))) (d_workload_by_assignee (dash_loop js))
     = foldl (\<lambda>a i. dd_update (assignee_name i) (0, 0) (load_step i) a) [] js"
proof -
  have step: "(dw_total_issues (dash_workload_step i v), dw_in_progress_count (dash_workload_step i v))
              = load_step i (dw_total_issues v, dw_in_progress_count v)" for i v
    by (simp add: dash_workload_step_def load_step_def Let_def)
  show ?thesis
    using dd_fold_project [where p = "\<lambda>d. (dw_total_issues d, dw_in_progress_count d)"
        and f = dash_workload_step and g = load_step and key = assignee_name
        and d = "\<lparr>dw_total_issues = 0, dw_in_progress_count = 0, dw_completed_count = 0,
                  dw_story_points = 0, dw_high_priority_count = 0\<rparr>" and a = "[]" and js = js,
        OF step]
    by (simp add: dash_loop_def dash_fold_workload dash_init_def)
qed

lemma workload_project:
  "map (apsnd (\<lambda>d. (al_total_issues d, al_in_progress_count d))) (workload_analysis js)
     = foldl (\<lambda>a i. dd_update (assignee_name i) (0, 0) (load_step i) a) [] js"
proof -
  have step: "(al_total_issues (assignee_load_step i v), al_in_progress_count (assignee_load_step i v))
              = load_step i (al_total_issues v, al_in_progress_count v)" for i v
    by (simp add: assignee_load_step_def load_step_def Let_def)
  have "map (apsnd (\<lambda>d. (al_total_issues d, al_in_progress_count d))) (workload_analysis js)
        = map (apsnd (\<lambda>d. (al_total_issues d, al_in_progress_count d))) (foldl workload_step [] js)"
    by (simp add: workload_analysis_def apsnd_def map_prod_def case_prod_unfold assess_load_counts)
  also have "\<dots> = foldl (\<lambda>a i. dd_update (assignee_name i) (0, 0) (load_step i) a) [] js"
    using dd_fold_project [where p = "\<lambda>d. (al_total_issues d, al_in_progress_count d)"
        and f = assignee_load_step and g = load_step and key = assignee_name
        and d = assignee_load_default and a = "[]" and js = js, OF step]
    by (simp add: workload_fold assignee_load_default_def)
  finally show ?thesis .
qed

lemma workload_load_level:
  "(n, d) \<in> set (workload_analysis js) \<Longrightarrow> al_load_level d = load_level_of (al_total_issues d)"
  by (auto simp: workload_analysis_def assess_load_counts)

lemma overloaded_members_by_total:
  "overloaded_members (workload_analysis js)
     = map fst (filter (\<lambda>(n, d). n \<noteq> ''Unassigned'' \<and> 13 \<le> al_total_issues d) (workload_analysis js))"
proof -
  have "filter (\<lambda>(n, d). al_load_level d = OVERLOADED \<and> n \<noteq> ''Unassigned'') (workload_analysis js)
        = filter (\<lambda>(n, d). n \<noteq> ''Unassigned'' \<and> 13 \<le> al_total_issues d) (workload_analysis js)"
    by (rule filter_cong) (auto simp: load_level_of_def dest!: workload_load_level split: if_splits)
  then show ?thesis by (simp add: overloaded_members_def)
qed

lemma dash_overloaded_members_eq:
  "dash_overloaded_members js = overloaded_members (workload_analysis js)"
proof -
  have "dash_overloaded_members js
        = map fst (filter (\<lambda>(n, u). n \<noteq> ''Unassigned'' \<and> 13 \<le> fst u)
            (map (apsnd (\<lambda>d. (dw_total_issues d, dw_in_progress_count d)))
               (d_workload_by_assignee (dash_loop js))))"
    unfolding dash_overloaded_members_def
    using filter_project [where Q = "\<lambda>n u. n \<noteq> ''Unassigned'' \<and> 13 \<le> fst u"
        and p = "\<lambda>d. (dw_total_issues d, dw_in_progress_count d)"
        and al = "d_workload_by_assignee (dash_loop js)"]
    by simp
  also have "\<dots> = map fst (filter (\<lambda>(n, u). n \<noteq> ''Unassigned'' \<and> 13 \<le> fst u)
            (map (apsnd (\<lambda>d. (al_total_issues d, al_in_progress_count d))) (workload_analysis js)))"
    by (simp only: dash_workload_project workload_project)
  also have "\<dots> = overloaded_members (workload_analysis js)"
    unfolding overloaded_members_by_total
    using filter_project [where Q = "\<lambda>n u. n \<noteq> ''Unassigned'' \<and> 13 \<le> fst u"
        and p = "\<lambda>d. (al_total_issues d, al_in_progress_count d)"
        and al = "workload_analysis js"]
    by simp
  finally show ?thesis .
qed

lemma dash_wip_violators_eq:
  "dash_wip_violators js
     = map fst (filter (\<lambda>(n, d). n \<noteq> ''Unassigned'' \<and> 2 < al_in_progress_count d)
                  (workload_analysis js))"
proof -
  have "dash_wip_violators js
        = map fst (filter (\<lambda>(n, u). n \<noteq> ''Unassigned'' \<and> 2 < snd u)
            (map (apsnd (\<lambda>d. (dw_total_issues d, dw_in_progress_count d)))
               (d_workload_by_assignee (dash_loop js))))"
    unfolding dash_wip_violators_def
    using filter_project [where Q = "\<lambda>n u. n \<noteq> ''Unassigned'' \<and> 2 < snd u"
        and p = "\<lambda>d. (dw_total_issues d, dw_in_progress_count d)"
        and al = "d_workload_by_assignee (dash_loop js)"]
    by simp
  also have "\<dots> = map fst (filter (\<lambda>(n, u). n \<noteq> ''Unassigned'' \<and> 2 < snd u)
            (map (apsnd (\<lambda>d. (al_total_issues d, al_in_progress_count d))) (workload_analysis js)))"
    by (simp only: dash_workload_project workload_project)
  also have "\<dots> = map fst (filter (\<lambda>(n, d). n \<noteq> ''Unassigned'' \<and> 2 < al_in_progress_count d)
                  (workload_analysis js))"
    using filter_project [where Q = "\<lambda>n u. n \<noteq> ''Unassigned'' \<and> 2 < snd u"
        and p = "\<lambda>d. (al_total_issues d, al_in_progress_count d)"
        and al = "workload_analysis js"]
    by simp
  finally show ?thesis .
qed

text \<open>
  Claim C5 as stated: the recommendations of the dashboard fire under the same conditions
  as those of the standalone analyzers. For a sprint in which one assignee has two issues
  in progress, the workload analyzer recommends to address the WIP violation (its rule
  counts every in-progress issue beyond the first), while the dashboard, whose rule asks
  for more than two issues in progress, does not.
\<close>

theorem dashboard_wip_rule_counterexample:
  "workload_recommendations (workload_analysis two_in_progress) = [Address_wip [''alice'']]
   \<and> db_key_recommendations (dashboard 7 1 (mk_sprint 1 10) two_in_progress)
       = [Reduce_scope_immediately]"
proof -
  have "workload_recommendations (workload_analysis two_in_progress) = [Address_wip [''alice'']]"
    by (simp add: workload_recommendations_def eval_workload max_issues_def min_issues_def
        assigned_members_def two_in_progress_def eval_issue)
  moreover have "db_key_recommendations (dashboard 7 1 (mk_sprint 1 10) two_in_progress)
       = [Reduce_scope_immediately]"
    by (simp add: eval_dash two_in_progress_def eval_issue)
  ultimately show ?thesis by simp
qed

text \<open>The critical-items rule of the dashboard tests only that no critical issue is in
  progress. For a sprint whose single critical issue is done it fires, where the rule of
  the priority focus analyzer, which also asks that none is completed, does not.\<close>

lemma dashboard_critical_completed_example:
  "db_key_recommendations (dashboard 7 1 (mk_sprint 1 10) critical_done) = [Start_critical_items 1]
   \<and> critical_completed critical_done = 1
   \<and> priority_recommendations critical_done [] = [Good_focus]"
proof -
  have "db_key_recommendations (dashboard 7 1 (mk_sprint 1 10) critical_done) = [Start_critical_items 1]"
    by (simp add: eval_dash critical_done_def eval_issue)
  moreover have "critical_completed critical_done = 1"
    by (simp add: eval_priority critical_done_def eval_issue)
  moreover have "priority_recommendations critical_done [] = [Good_focus]"
    by (simp add: priority_recommendations_def critical_in_backlog_def backlog_analysis_def
        eval_priority critical_done_def eval_issue)
  ultimately show ?thesis by simp
qed

text \<open>
  Claim C5, amended. The recommendations of the dashboard are, in this fixed order: the
  commitment rule, which fires exactly on the statuses \<open>SEVERELY_OVERCOMMITTED\<close> and
  \<open>OVERCOMMITTED\<close> of the commitment analyzer; the redistribution rule, which fires
  exactly when the workload analyzer lists overloaded members, and names them; the WIP
  rule, which fires exactly when some assigned member has more than two issues in
  progress, and names those members; the critical-items rule; the priority-focus rule,
  which fires exactly when the high-priority percentage of the priority focus analyzer is
  below 50; and the fallback, which is given exactly when none of the rules fired. The
  critical-items rule fires only when the sprint contains critical items none of which
  is in progress, and it does fire when moreover none is completed.
\<close>

theorem dashboard_recommendation_rules:
  "\<exists>cs. db_key_recommendations (dashboard board_id sid sp issues)
        = (let rs =
             (if c_status (commitment_analysis sid sp issues) = SEVERELY_OVERCOMMITTED
              then [Reduce_scope_immediately]
              else if c_status (commitment_analysis sid sp issues) = OVERCOMMITTED
              then [Consider_reducing_scope] else [])
             @ (if overloaded_members (workload_analysis issues) \<noteq> []
                then [Redistribute_overloaded (overloaded_members (workload_analysis issues))]
                else [])
             @ (if map fst (filter (\<lambda>(n, d). n \<noteq> ''Unassigned'' \<and> 2 < al_in_progress_count d)
                              (workload_analysis issues)) \<noteq> []
                then [Address_wip_violations
                        (map fst (filter (\<lambda>(n, d). n \<noteq> ''Unassigned'' \<and> 2 < al_in_progress_count d)
                                    (workload_analysis issues)))]
                else [])
             @ cs
             @ (if high_priority_percentage issues < 50 then [Increase_priority_focus] else [])
           in if rs = [] then [Health_looks_good] else rs)
      \<and> (cs = [] \<or> cs = [Start_critical_items (critical_in_sprint issues)])
      \<and> (cs \<noteq> [] \<longrightarrow> 0 < critical_in_sprint issues \<and> critical_in_progress issues = 0)
      \<and> (0 < critical_in_sprint issues \<and> critical_in_progress issues = 0
            \<and> critical_completed issues = 0 \<longrightarrow> cs \<noteq> [])"
proof -
  define cs where "cs = (if 0 < critical_in_sprint issues \<and> critical_in_progress issues = 0
                         then [Start_critical_items (critical_in_sprint issues)] else [])"
  have st: "c_status (commitment_analysis sid sp issues) = dash_commitment_status issues"
    by (simp add: commitment_analysis_def Let_def dash_commitment_status_def dash_completion_rate_eq)
  have "db_key_recommendations (dashboard board_id sid sp issues) = dash_recommendations issues"
    by (simp add: dashboard_def Let_def)
  also have "\<dots> = (let rs =
             (if c_status (commitment_analysis sid sp issues) = SEVERELY_OVERCOMMITTED
              then [Reduce_scope_immediately]
              else if c_status (commitment_analysis sid sp issues) = OVERCOMMITTED
              then [Consider_reducing_scope] else [])
             @ (if overloaded_members (workload_analysis issues) \<noteq> []
                then [Redistribute_overloaded (overloaded_members (workload_analysis issues))]
                else [])
             @ (if map fst (filter (\<lambda>(n, d). n \<noteq> ''Unassigned'' \<and> 2 < al_in_progress_count d)
                              (workload_analysis issues)) \<noteq> []
                then [Address_wip_violations
                        (map fst (filter (\<lambda>(n, d). n \<noteq> ''Unassigned'' \<and> 2 < al_in_progress_count d)
                                    (workload_analysis issues)))]
                else [])
             @ cs
             @ (if high_priority_percentage issues < 50 then [Increase_priority_focus] else [])
           in if rs = [] then [Health_looks_good] else rs)"
    unfolding dash_recommendations_def st dash_overloaded_members_eq dash_wip_violators_eq
      dash_critical_eq dash_high_priority_percentage_eq cs_def ..
  finally have eq: "db_key_recommendations (dashboard board_id sid sp issues) = (let rs =
             (if c_status (commitment_analysis sid sp issues) = SEVERELY_OVERCOMMITTED
              then [Reduce_scope_immediately]
              else if c_status (commitment_analysis sid sp issues) = OVERCOMMITTED
              then [Consider_reducing_scope] else [])
             @ (if overloaded_members (workload_analysis issues) \<noteq> []
                then [Redistribute_overloaded (overloaded_members (workload_analysis issues))]
                else [])
             @ (if map fst (filter (\<lambda>(n, d). n \<noteq> ''Unassigned'' \<and> 2 < al_in_progress_count d)
                              (workload_analysis issues)) \<noteq> []
                then [Address_wip_violations
                        (map fst (filter (\<lambda>(n, d). n \<noteq> ''Unassigned'' \<and> 2 < al_in_progress_count d)
                                    (workload_analysis issues)))]
                else [])
             @ cs
             @ (if high_priority_percentage issues < 50 then [Increase_priority_focus] else [])
           in if rs = [] then [Health_looks_good] else rs)" .
  have "cs = [] \<or> cs = [Start_critical_items (critical_in_sprint issues)]"
    by (simp add: cs_def)
  moreover have "cs \<noteq> [] \<longrightarrow> 0 < critical_in_sprint issues \<and> critical_in_progress issues = 0"
    by (simp add: cs_def)
  moreover have "0 < critical_in_sprint issues \<and> critical_in_progress issues = 0
            \<and> critical_completed issues = 0 \<longrightarrow> cs \<noteq> []"
    by (simp add: cs_def)
  ultimately show ?thesis using eq by blast
qed

theorem dashboard_recommendation_rules_witness:
  "0 < critical_in_sprint critical_todo \<and> critical_in_progress critical_todo = 0
   \<and> critical_completed critical_todo = 0
   \<and> db_key_recommendations (dashboard 7 1 (mk_sprint 1 10) critical_todo)
       = [Reduce_scope_immediately, Start_critical_items 1]"
proof -
  have a: "critical_in_sprint critical_todo = 1" "critical_in_progress critical_todo = 0"
    "critical_completed critical_todo = 0" "high_priority_percentage critical_todo = 100"
    by (simp_all add: eval_priority critical_todo_def eval_issue)
  have b: "c_status (commitment_analysis 1 (mk_sprint 1 10) critical_todo) = SEVERELY_OVERCOMMITTED"
    by (simp add: commitment_analysis_def primary_completion_rate_def uses_story_points_def
        issue_completion_rate_def commitment_loop_def commitment_init_def commitment_step_def
        commitment_status_step_def commitment_status_of_def Let_def critical_todo_def eval_issue)
  have c: "overloaded_members (workload_analysis critical_todo) = []"
    "map fst (filter (\<lambda>(n, d). n \<noteq> ''Unassigned'' \<and> 2 < al_in_progress_count d)
                              (workload_analysis critical_todo)) = []"
    by (simp_all add: eval_workload critical_todo_def eval_issue)
  from dashboard_recommendation_rules [of 7 1 "mk_sprint 1 10" critical_todo] obtain cs where
    cs: "db_key_recommendations (dashboard 7 1 (mk_sprint 1 10) critical_todo)
           = [Reduce_scope_immediately] @ cs"
      "cs = [] \<or> cs = [Start_critical_items 1]" "cs \<noteq> []"
    by (auto simp: a b c Let_def)
  then show ?thesis by (auto simp: a)
qed

end
